theory Spec2Isabelle
  imports Complex_Main
begin

section \<open>Values and records read from a DBF archive\<close>

text \<open>
  The import scripts (\<^verbatim>\<open>src/scripts/dbfToMongo.js\<close> and its three variants
  \<^verbatim>\<open>part_001\<close>, \<^verbatim>\<open>part_002\<close>, \<^verbatim>\<open>part_003\<close>) read every record of a DBF archive
  with the \<^verbatim>\<open>dbffile\<close> reader and write it to a Mongoose model. (\<^verbatim>\<open>part_001\<close> is
  \<^verbatim>\<open>dbfToMongo.js\<close> without the error log and with the sanitizer of \<^verbatim>\<open>part_003\<close>; of
  it only the sanitizer is modelled.) A field value is a
  string, a number, a boolean, a date or null. A JavaScript number is NaN, one of the
  two infinities or a finite value; a \<^verbatim>\<open>Date\<close> carries a time value that is a number
  too (NaN for an invalid date), but \<^verbatim>\<open>typeof\<close> a date is \<^verbatim>\<open>"object"\<close>.
\<close>

datatype jsnumber = NaN | PosInfinity | NegInfinity | Finite rat

datatype jsvalue =
    VNull
  | VBoolean bool
  | VString string
  | VNumber jsnumber
  | VDate jsnumber

text \<open>
  A plain object is the list of its own properties in insertion order; a well-formed
  object has no key twice. \<^verbatim>\<open>Object.entries(record)\<close> is that list. The sanitizers
  below consume the entry list, so they are defined on every list of pairs, also one that
  repeats a field name. The keys are the field names of a DBF header (at most ten
  characters, set by the reader with a plain assignment), so neither \<^verbatim>\<open>hasOwnProperty\<close>
  nor \<^verbatim>\<open>__proto__\<close> is among them. The place JavaScript gives to integer-like keys
  is not modelled: the properties below speak of the keys and of the value found under
  a key, not of the order.
\<close>

type_synonym jsobject = "(string \<times> jsvalue) list"

fun hasOwnProperty :: "jsobject \<Rightarrow> string \<Rightarrow> bool" where
  "hasOwnProperty [] key = False"
| "hasOwnProperty ((k, v) # ps) key = (if k = key then True else hasOwnProperty ps key)"

text \<open>\<^verbatim>\<open>obj[key] = value\<close>: an existing property keeps its place, a new one goes last.\<close>

fun set_property :: "jsobject \<Rightarrow> string \<Rightarrow> jsvalue \<Rightarrow> jsobject" where
  "set_property [] key value = [(key, value)]"
| "set_property ((k, v) # ps) key value =
     (if k = key then (k, value) # ps else (k, v) # set_property ps key value)"

text \<open>\<^verbatim>\<open>obj[key]\<close> on own properties (\<open>None\<close> for \<^verbatim>\<open>undefined\<close>).\<close>

fun get_property :: "jsobject \<Rightarrow> string \<Rightarrow> jsvalue option" where
  "get_property [] key = None"
| "get_property ((k, v) # ps) key = (if k = key then Some v else get_property ps key)"

definition own_keys :: "jsobject \<Rightarrow> string list" where
  "own_keys obj = map fst obj"

text \<open>
  The lists that are objects: no key twice. Every record the reader yields is one, and
  so is every list \<^verbatim>\<open>Object.entries\<close> gives.
\<close>

definition is_object :: "jsobject \<Rightarrow> bool" where
  "is_object obj = distinct (own_keys obj)"

section \<open>The sanitizer\<close>

text \<open>
  \<^verbatim>\<open>typeof value === "number" && isNaN(value) ? 0 : value\<close>, the expression shared by
  every variant. \<^verbatim>\<open>isNaN\<close> is only reached for a number.
\<close>

fun typeof_number :: "jsvalue \<Rightarrow> bool" where
  "typeof_number (VNumber n) = True"
| "typeof_number v = False"

fun isNaN :: "jsvalue \<Rightarrow> bool" where
  "isNaN (VNumber n) = (n = NaN)"
| "isNaN v = False"

definition sanitizeValue :: "jsvalue \<Rightarrow> jsvalue" where
  "sanitizeValue value =
     (if typeof_number value \<and> isNaN value then VNumber (Finite 0) else value)"

text \<open>
  \<^verbatim>\<open>sanitizeRecord\<close> of \<^verbatim>\<open>dbfToMongo.js\<close> (lines 40-48): a loop over the entries
  that writes a key only if the result does not own it yet.
\<close>

fun sanitize_entries :: "(string \<times> jsvalue) list \<Rightarrow> jsobject \<Rightarrow> jsobject" where
  "sanitize_entries [] sanitized = sanitized"
| "sanitize_entries ((key, value) # es) sanitized =
     sanitize_entries es
       (if \<not> hasOwnProperty sanitized key
        then set_property sanitized key (sanitizeValue value)
        else sanitized)"

definition sanitizeRecord :: "jsobject \<Rightarrow> jsobject" where
  "sanitizeRecord record = sanitize_entries record []"

text \<open>
  \<^verbatim>\<open>sanitizeRecord\<close> of \<^verbatim>\<open>part_001\<close>, \<^verbatim>\<open>part_002\<close> and \<^verbatim>\<open>part_003\<close> (the same text in
  the three files): \<^verbatim>\<open>Object.fromEntries(Object.entries(record).map(...))\<close>.
  \<^verbatim>\<open>Object.fromEntries\<close> assigns the pairs one after the other.
\<close>

fun fromEntries_loop :: "(string \<times> jsvalue) list \<Rightarrow> jsobject \<Rightarrow> jsobject" where
  "fromEntries_loop [] obj = obj"
| "fromEntries_loop ((key, value) # es) obj = fromEntries_loop es (set_property obj key value)"

definition fromEntries :: "(string \<times> jsvalue) list \<Rightarrow> jsobject" where
  "fromEntries es = fromEntries_loop es []"

definition sanitizeRecord_fromEntries :: "jsobject \<Rightarrow> jsobject" where
  "sanitizeRecord_fromEntries record =
     fromEntries (map (\<lambda>(key, value). (key, sanitizeValue value)) record)"

section \<open>The world of the scripts\<close>

text \<open>
  The seven record types are the keys of the \<^verbatim>\<open>models\<close> object of \<^verbatim>\<open>importDbfsData\<close>;
  the scripts call such a key \<^verbatim>\<open>modelType\<close> or \<^verbatim>\<open>fileName\<close>. A path is the list of its
  segments (\<^verbatim>\<open>path.join\<close> appends one).
\<close>

datatype modelType = Article | Classnum | Fournisseur | Client | Facture | FactureDetail | Tier

type_synonym path = "string list"

text \<open>
  Every text the scripts print or log, one constructor per template literal; the
  arguments are the interpolated values. \<open>Elapsed\<close>, \<open>TotalElapsed\<close> and
  \<open>ElapsedBeforeError\<close> stand for the lines that print \<^verbatim>\<open>formatElapsedTime()\<close>: the elapsed
  time itself is not modelled, and neither are the progress bar and \<^verbatim>\<open>console.time\<close>,
  which only draw on the terminal.
\<close>

datatype message =
    UriUndefined
  | Connecting
  | Connected
  | MongoError string
  | ModelLoadFailed string string
  | ModelLoadFailedFor string string
  | FileMissing modelType string
  | FileMissingIn path
  | Reading modelType nat
  | ReadingPath path nat
  | Deleting modelType
  | DeletingFolder string
  | InsertError modelType string
  | InsertErrorPlain string
  | ImportDone modelType nat nat
  | ImportDoneFolder string nat
  | FolderNotFound path
  | FolderStart string
  | Elapsed
  | AllDone
  | TotalElapsed
  | ErrorMsg string
  | ElapsedBeforeError
  | Critical string

datatype level = Log | Warn | Error

text \<open>
  What a script does to the outside, in the order it does it: a console line, a line
  appended to \<^verbatim>\<open>./error.log\<close> (its timestamp and its message), a file-system or
  archive access, a dynamic import, the connection attempt, and an operation issued on a
  destination collection (whether it then succeeds or raises; the flag of
  \<open>DbInsertMany\<close> is \<^verbatim>\<open>ordered\<close>).
\<close>

datatype effect =
    Console level message
  | LogLine nat message
  | FsExists path
  | DbfOpen path
  | DbfRead path
  | Import path
  | MongoConnect string
  | DbDeleteMany string
  | DbCreate string jsobject
  | DbInsertMany string "jsobject list" bool

text \<open>
  A call returns a value, throws an error (its \<^verbatim>\<open>message\<close>) or ends the process with an
  exit code. The destination is a map from collection names to the documents stored; a
  computation takes it and gives its outcome, the destination afterwards and the effects
  it had.
\<close>

datatype 'a outcome = Returns 'a | Throws string | Exits nat

type_synonym db = "string \<Rightarrow> jsobject list"

type_synonym 'a io = "db \<Rightarrow> 'a outcome \<times> db \<times> effect list"

definition io_return :: "'a \<Rightarrow> 'a io" where
  "io_return a = (\<lambda>db. (Returns a, db, []))"

text \<open>Sequencing (\<^verbatim>\<open>await m; f\<close>): a throw or an exit of \<open>m\<close> skips \<open>f\<close>.\<close>

definition io_bind :: "'a io \<Rightarrow> ('a \<Rightarrow> 'b io) \<Rightarrow> 'b io" where
  "io_bind m f = (\<lambda>db.
     case m db of
       (Returns a, db1, tr1) \<Rightarrow> (case f a db1 of (r, db2, tr2) \<Rightarrow> (r, db2, tr1 @ tr2))
     | (Throws e, db1, tr1) \<Rightarrow> (Throws e, db1, tr1)
     | (Exits c, db1, tr1) \<Rightarrow> (Exits c, db1, tr1))"

text \<open>\<^verbatim>\<open>try { m } catch (err) { h }\<close>: what \<open>h\<close> throws is not caught again.\<close>

definition try_catch :: "'a io \<Rightarrow> (string \<Rightarrow> 'a io) \<Rightarrow> 'a io" where
  "try_catch m h = (\<lambda>db.
     case m db of
       (Throws e, db1, tr1) \<Rightarrow> (case h e db1 of (r, db2, tr2) \<Rightarrow> (r, db2, tr1 @ tr2))
     | (Returns a, db1, tr1) \<Rightarrow> (Returns a, db1, tr1)
     | (Exits c, db1, tr1) \<Rightarrow> (Exits c, db1, tr1))"

text \<open>
  \<^verbatim>\<open>try { m } finally { fin }\<close>: \<open>fin\<close> runs after a return and after a throw of \<open>m\<close>,
  and its own throw or exit replaces the outcome of \<open>m\<close>. A process that has exited
  runs nothing more.
\<close>

definition try_finally :: "'a io \<Rightarrow> unit io \<Rightarrow> 'a io" where
  "try_finally m fin = (\<lambda>db.
     case m db of
       (Exits c, db1, tr1) \<Rightarrow> (Exits c, db1, tr1)
     | (r, db1, tr1) \<Rightarrow>
         (case fin db1 of
            (Returns u, db2, tr2) \<Rightarrow> (r, db2, tr1 @ tr2)
          | (Throws e, db2, tr2) \<Rightarrow> (Throws e, db2, tr1 @ tr2)
          | (Exits c, db2, tr2) \<Rightarrow> (Exits c, db2, tr1 @ tr2)))"

definition process_exit :: "nat \<Rightarrow> 'a io" where
  "process_exit code = (\<lambda>db. (Exits code, db, []))"

definition console :: "level \<Rightarrow> message \<Rightarrow> unit io" where
  "console l m = (\<lambda>db. (Returns (), db, [Console l m]))"

subsection \<open>The archive reader and the destination handle\<close>

text \<open>
  An opened archive (\<^verbatim>\<open>dbffile\<close>): the record count of its header, and what
  \<^verbatim>\<open>readRecords()\<close> gives, the records or an error.
\<close>

record dbffile =
  recordCount :: nat
  readRecords_result :: "string + jsobject list"

text \<open>
  Modelled from the spec: the destination handle. The Mongoose models are the modules
  \<^verbatim>\<open>models/bases/<folder>/<folder><Type>.js\<close>, which are not among the sources. A handle
  names its collection; it rejects a document, given the documents the collection
  holds, with an error message, or accepts it (then the collection holds the document
  as written); \<^verbatim>\<open>deleteMany()\<close> empties the collection or raises.
\<close>

record model =
  collectionName :: string
  rejects :: "jsobject list \<Rightarrow> jsobject \<Rightarrow> string option"
  deleteMany_error :: "string option"

text \<open>
  What a run finds outside: the two environment variables, the outcome of
  \<^verbatim>\<open>mongoose.connect\<close> for a connection string, the clock (one reading for the whole
  run: the passing of time is not modelled), whether a write to
  \<^verbatim>\<open>./error.log\<close> raises, which paths exist, what opening an archive gives, and what the
  dynamic import of a model module gives (an error, or its default export if it has one).
\<close>

record env =
  MONGO_URI :: "string option"
  MONGO_URI_DEV :: "string option"
  mongoose_connect :: "string \<Rightarrow> string option"
  now :: nat
  appendFileSync_error :: "string option"
  fs_existsSync :: "path \<Rightarrow> bool"
  DBFFile_open :: "path \<Rightarrow> string + dbffile"
  import_default :: "path \<Rightarrow> string + model option"

definition existsSync :: "env \<Rightarrow> path \<Rightarrow> bool io" where
  "existsSync e p = (\<lambda>db. (Returns (fs_existsSync e p), db, [FsExists p]))"

definition open_dbf :: "env \<Rightarrow> path \<Rightarrow> dbffile io" where
  "open_dbf e p = (\<lambda>db.
     case DBFFile_open e p of
       Inl err \<Rightarrow> (Throws err, db, [DbfOpen p])
     | Inr dbf \<Rightarrow> (Returns dbf, db, [DbfOpen p]))"

definition readRecords :: "path \<Rightarrow> dbffile \<Rightarrow> jsobject list io" where
  "readRecords p dbf = (\<lambda>db.
     case readRecords_result dbf of
       Inl err \<Rightarrow> (Throws err, db, [DbfRead p])
     | Inr rs \<Rightarrow> (Returns rs, db, [DbfRead p]))"

definition dynamic_import :: "env \<Rightarrow> path \<Rightarrow> model option io" where
  "dynamic_import e p = (\<lambda>db.
     case import_default e p of
       Inl err \<Rightarrow> (Throws err, db, [Import p])
     | Inr m \<Rightarrow> (Returns m, db, [Import p]))"

definition connect :: "env \<Rightarrow> string \<Rightarrow> unit io" where
  "connect e uri = (\<lambda>db.
     case mongoose_connect e uri of
       None \<Rightarrow> (Returns (), db, [MongoConnect uri])
     | Some err \<Rightarrow> (Throws err, db, [MongoConnect uri]))"

definition deleteMany :: "model \<Rightarrow> unit io" where
  "deleteMany m = (\<lambda>db.
     case deleteMany_error m of
       None \<Rightarrow> (Returns (), db(collectionName m := []), [DbDeleteMany (collectionName m)])
     | Some err \<Rightarrow> (Throws err, db, [DbDeleteMany (collectionName m)]))"

definition create :: "model \<Rightarrow> jsobject \<Rightarrow> unit io" where
  "create m doc = (\<lambda>db.
     case rejects m (db (collectionName m)) doc of
       None \<Rightarrow>
         (Returns (), db(collectionName m := db (collectionName m) @ [doc]),
          [DbCreate (collectionName m) doc])
     | Some err \<Rightarrow> (Throws err, db, [DbCreate (collectionName m) doc]))"

text \<open>
  Modelled from the spec: the unordered write of a chunk (\<^verbatim>\<open>insertMany(batch,
  { ordered: false })\<close>). Every document of the chunk is attempted, in order; a rejected
  one does not keep the later ones from being written. The result is the collection
  afterwards, the documents written and the errors. The call returns the documents
  written when there was no error, and raises the first error otherwise (the documents
  that were accepted stay written).
\<close>

fun insert_unordered ::
  "model \<Rightarrow> jsobject list \<Rightarrow> jsobject list \<Rightarrow> jsobject list \<times> jsobject list \<times> string list" where
  "insert_unordered m [] coll = (coll, [], [])"
| "insert_unordered m (d # ds) coll =
     (case rejects m coll d of
        None \<Rightarrow>
          (case insert_unordered m ds (coll @ [d]) of (c, ins, errs) \<Rightarrow> (c, d # ins, errs))
      | Some err \<Rightarrow>
          (case insert_unordered m ds coll of (c, ins, errs) \<Rightarrow> (c, ins, err # errs)))"

definition insertMany_unordered :: "model \<Rightarrow> jsobject list \<Rightarrow> jsobject list io" where
  "insertMany_unordered m docs = (\<lambda>db.
     case insert_unordered m docs (db (collectionName m)) of
       (c, ins, errs) \<Rightarrow>
         ((case errs of [] \<Rightarrow> Returns ins | err # _ \<Rightarrow> Throws err),
          db(collectionName m := c),
          [DbInsertMany (collectionName m) docs False]))"

text \<open>
  Modelled from the spec: the ordered write (\<^verbatim>\<open>insertMany(batch)\<close>, the default): it
  stops at the first rejected document and raises its error; the documents before it
  stay written.
\<close>

fun insert_ordered :: "model \<Rightarrow> jsobject list \<Rightarrow> jsobject list \<Rightarrow> jsobject list \<times> string option" where
  "insert_ordered m [] coll = (coll, None)"
| "insert_ordered m (d # ds) coll =
     (case rejects m coll d of
        None \<Rightarrow> insert_ordered m ds (coll @ [d])
      | Some err \<Rightarrow> (coll, Some err))"

definition insertMany_ordered :: "model \<Rightarrow> jsobject list \<Rightarrow> jsobject list io" where
  "insertMany_ordered m docs = (\<lambda>db.
     case insert_ordered m docs (db (collectionName m)) of
       (c, err) \<Rightarrow>
         ((case err of None \<Rightarrow> Returns docs | Some msg \<Rightarrow> Throws msg),
          db(collectionName m := c),
          [DbInsertMany (collectionName m) docs True]))"

section \<open>\<^verbatim>\<open>src/scripts/dbfToMongo.js\<close>\<close>

text \<open>
  \<^verbatim>\<open>process.env.MONGO_URI || process.env.MONGO_URI_DEV\<close>; an environment variable is a
  string or undefined, and the empty string is falsy like undefined.
\<close>

definition falsy :: "string option \<Rightarrow> bool" where
  "falsy v = (case v of None \<Rightarrow> True | Some s \<Rightarrow> s = [])"

definition js_or :: "string option \<Rightarrow> string option \<Rightarrow> string option" where
  "js_or a b = (if falsy a then b else a)"

definition mongoUri :: "env \<Rightarrow> string option" where
  "mongoUri e = js_or (MONGO_URI e) (MONGO_URI_DEV e)"

text \<open>The string handed to \<^verbatim>\<open>mongoose.connect\<close>; the script has exited before when there is none.\<close>

definition uri_string :: "string option \<Rightarrow> string" where
  "uri_string v = (case v of None \<Rightarrow> [] | Some s \<Rightarrow> s)"

text \<open>
  \<^verbatim>\<open>logError\<close> (lines 23-25): one \<^verbatim>\<open>fs.appendFileSync\<close> of the line
  \<^verbatim>\<open><ISO timestamp> - <message>\<close>, with nothing around it.
\<close>

definition appendFileSync :: "env \<Rightarrow> nat \<Rightarrow> message \<Rightarrow> unit io" where
  "appendFileSync e t msg = (\<lambda>db.
     case appendFileSync_error e of
       None \<Rightarrow> (Returns (), db, [LogLine t msg])
     | Some err \<Rightarrow> (Throws err, db, []))"

definition logError :: "env \<Rightarrow> message \<Rightarrow> unit io" where
  "logError e msg = appendFileSync e (now e) msg"

text \<open>\<^verbatim>\<open>connectDB\<close> (lines 28-37), the same in the four scripts.\<close>

definition connectDB :: "env \<Rightarrow> unit io" where
  "connectDB e =
     try_catch
       (io_bind (console Log Connecting) (\<lambda>_.
        io_bind (connect e (uri_string (mongoUri e))) (\<lambda>_.
        console Log Connected)))
       (\<lambda>err.
        io_bind (console Error (MongoError err)) (\<lambda>_.
        process_exit 1))"

fun modelSuffix :: "modelType \<Rightarrow> string" where
  "modelSuffix Article = ''Article''"
| "modelSuffix Classnum = ''Classnum''"
| "modelSuffix Fournisseur = ''Fournisseur''"
| "modelSuffix Client = ''Client''"
| "modelSuffix Facture = ''Facture''"
| "modelSuffix FactureDetail = ''FactureDetail''"
| "modelSuffix Tier = ''Tier''"

definition modelFileName :: "string \<Rightarrow> modelType \<Rightarrow> string" where
  "modelFileName folder modelType = folder @ modelSuffix modelType"

definition modelPath :: "string \<Rightarrow> modelType \<Rightarrow> path" where
  "modelPath folder modelType =
     [''models'', ''bases'', folder, modelFileName folder modelType @ ''.js'']"

fun fileMap :: "modelType \<Rightarrow> string" where
  "fileMap Article = ''article.dbf''"
| "fileMap Classnum = ''classes.dbf''"
| "fileMap Fournisseur = ''fourniss.dbf''"
| "fileMap Client = ''clients.dbf''"
| "fileMap Facture = ''facture.dbf''"
| "fileMap FactureDetail = ''detail.dbf''"
| "fileMap Tier = ''tiers.dbf''"

text \<open>\<^verbatim>\<open>loadModel\<close> (lines 61-84).\<close>

definition loadModel :: "env \<Rightarrow> string \<Rightarrow> modelType \<Rightarrow> model option io" where
  "loadModel e folder modelType =
     try_catch
       (dynamic_import e (modelPath folder modelType))
       (\<lambda>err.
        io_bind (console Warn (ModelLoadFailed (modelFileName folder modelType) err)) (\<lambda>_.
        io_bind (logError e (ModelLoadFailed (modelFileName folder modelType) err)) (\<lambda>_.
        io_return None)))"

text \<open>
  The record loop of \<^verbatim>\<open>processFile\<close> (lines 119-132): one \<^verbatim>\<open>model.create\<close> for each
  record, the count raised after a create that returned.
\<close>

fun insert_records :: "env \<Rightarrow> model \<Rightarrow> modelType \<Rightarrow> jsobject list \<Rightarrow> nat \<Rightarrow> nat io" where
  "insert_records e m fileName [] insertedCount = io_return insertedCount"
| "insert_records e m fileName (record # rest) insertedCount =
     io_bind
       (try_catch
          (io_bind (create m (sanitizeRecord record)) (\<lambda>_.
           io_return (insertedCount + 1)))
          (\<lambda>err.
           io_bind (console Error (InsertError fileName err)) (\<lambda>_.
           io_bind (logError e (InsertError fileName err)) (\<lambda>_.
           io_return insertedCount))))
       (\<lambda>n. insert_records e m fileName rest n)"

text \<open>\<^verbatim>\<open>processFile\<close> (lines 101-140).\<close>

definition processFile :: "env \<Rightarrow> path \<Rightarrow> model \<Rightarrow> modelType \<Rightarrow> string \<Rightarrow> unit io" where
  "processFile e filePath m fileName folder =
     io_bind (existsSync e filePath) (\<lambda>found.
     if \<not> found then
       io_bind (console Warn (FileMissing fileName folder)) (\<lambda>_.
       logError e (FileMissing fileName folder))
     else
       io_bind (open_dbf e filePath) (\<lambda>dbf.
       io_bind (console Log (Reading fileName (recordCount dbf))) (\<lambda>_.
       io_bind (console Log (Deleting fileName)) (\<lambda>_.
       io_bind (deleteMany m) (\<lambda>_.
       io_bind (readRecords filePath dbf) (\<lambda>recs.
       io_bind (insert_records e m fileName recs 0) (\<lambda>insertedCount.
       console Log (ImportDone fileName insertedCount (recordCount dbf)))))))))"

text \<open>\<^verbatim>\<open>importDbfsData\<close> (lines 143-203).\<close>

definition folders :: "string list" where
  "folders =
     [''AVB'', ''AW'', ''DQ'', ''FMB'', ''HD'', ''KONE'', ''KOUMAC'', ''LD'',
      ''LE_BROUSSARD'', ''MEARE'', ''PAITA_BRICOLAGE'', ''QC'', ''SITEC'', ''VKP'']"

definition DBF_FOLDER :: path where
  "DBF_FOLDER = [''_dbf'']"

definition modelTypes :: "modelType list" where
  "modelTypes = [Article, Classnum, Fournisseur, Client, Facture, FactureDetail, Tier]"

text \<open>The \<^verbatim>\<open>models\<close> object: the seven \<^verbatim>\<open>loadModel\<close> calls, in order.\<close>

fun load_models :: "env \<Rightarrow> string \<Rightarrow> modelType list \<Rightarrow> (modelType \<times> model option) list io" where
  "load_models e folder [] = io_return []"
| "load_models e folder (t # ts) =
     io_bind (loadModel e folder t) (\<lambda>m.
     io_bind (load_models e folder ts) (\<lambda>ms.
     io_return ((t, m) # ms)))"

text \<open>The loop over \<^verbatim>\<open>Object.entries(models)\<close> (lines 177-191).\<close>

fun process_models :: "env \<Rightarrow> path \<Rightarrow> string \<Rightarrow> (modelType \<times> model option) list \<Rightarrow> unit io" where
  "process_models e folderPath folder [] = io_return ()"
| "process_models e folderPath folder ((fileName, model) # rest) =
     io_bind
       (case model of
          None \<Rightarrow> io_return ()
        | Some m \<Rightarrow>
            io_bind (processFile e (folderPath @ [fileMap fileName]) m fileName folder) (\<lambda>_.
            console Log Elapsed))
       (\<lambda>_. process_models e folderPath folder rest)"

text \<open>The body of the loop over the folders (lines 156-191).\<close>

definition process_folder :: "env \<Rightarrow> string \<Rightarrow> unit io" where
  "process_folder e folder =
     io_bind (existsSync e (DBF_FOLDER @ [folder])) (\<lambda>found.
     if \<not> found then
       io_bind (console Warn (FolderNotFound (DBF_FOLDER @ [folder]))) (\<lambda>_.
       logError e (FolderNotFound (DBF_FOLDER @ [folder])))
     else
       io_bind (console Log (FolderStart folder)) (\<lambda>_.
       io_bind (load_models e folder modelTypes) (\<lambda>models.
       process_models e (DBF_FOLDER @ [folder]) folder models)))"

fun folder_loop :: "env \<Rightarrow> string list \<Rightarrow> unit io" where
  "folder_loop e [] = io_return ()"
| "folder_loop e (folder # rest) =
     io_bind (process_folder e folder) (\<lambda>_. folder_loop e rest)"

text \<open>
  \<^verbatim>\<open>importDbfsData\<close> over a list of folders; the script runs it on \<open>folders\<close>.
  \<^verbatim>\<open>process.exit()\<close> without a code exits with 0 (no \<^verbatim>\<open>process.exitCode\<close> is set).
\<close>

definition importDbfsData_on :: "env \<Rightarrow> string list \<Rightarrow> unit io" where
  "importDbfsData_on e fs =
     try_finally
       (try_catch
          (io_bind (connectDB e) (\<lambda>_.
           io_bind (folder_loop e fs) (\<lambda>_.
           io_bind (console Log AllDone) (\<lambda>_.
           console Log TotalElapsed))))
          (\<lambda>err.
           io_bind (console Error (ErrorMsg err)) (\<lambda>_.
           logError e (Critical err))))
       (process_exit 0)"

definition importDbfsData :: "env \<Rightarrow> unit io" where
  "importDbfsData e = importDbfsData_on e folders"

text \<open>
  The module, top to bottom: the check of the connection string (lines 13-18), then
  the call of \<^verbatim>\<open>importDbfsData\<close> (line 206).
\<close>

definition main_on :: "env \<Rightarrow> string list \<Rightarrow> unit io" where
  "main_on e fs =
     (if falsy (mongoUri e) then
        io_bind (console Error UriUndefined) (\<lambda>_. process_exit 1)
      else importDbfsData_on e fs)"

definition main :: "env \<Rightarrow> unit io" where
  "main e = main_on e folders"

section \<open>The batched script (\<^verbatim>\<open>part_003\<close>)\<close>

text \<open>
  \<^verbatim>\<open>part_003\<close> has no error log: it only prints. Its \<^verbatim>\<open>loadModel\<close> (lines 54-75) and
  the first lines of its \<^verbatim>\<open>processFile\<close> (lines 78-88) are those of \<^verbatim>\<open>dbfToMongo.js\<close>
  without the \<^verbatim>\<open>logError\<close> calls.
\<close>

definition loadModel_p3 :: "env \<Rightarrow> string \<Rightarrow> modelType \<Rightarrow> model option io" where
  "loadModel_p3 e folder modelType =
     try_catch
       (dynamic_import e (modelPath folder modelType))
       (\<lambda>err.
        io_bind (console Warn (ModelLoadFailed (modelFileName folder modelType) err)) (\<lambda>_.
        io_return None))"

text \<open>\<^verbatim>\<open>records.slice(i, j)\<close> for \<open>i \<le> j\<close>: the elements from index \<open>i\<close> up to, not including, \<open>j\<close>.\<close>

definition slice :: "'a list \<Rightarrow> nat \<Rightarrow> nat \<Rightarrow> 'a list" where
  "slice xs i j = take (j - i) (drop i xs)"

definition batchSize :: nat where
  "batchSize = 1000"

text \<open>
  The chunk loop of \<^verbatim>\<open>processFile\<close> (lines 105-115), for any chunk size; the script
  runs it with \<open>batchSize\<close>. With a chunk size of 0 the JavaScript loop would never
  advance; the scripts have no such size, and the model stops there.
\<close>

function insert_batches :: "nat \<Rightarrow> model \<Rightarrow> jsobject list \<Rightarrow> nat \<Rightarrow> nat \<Rightarrow> nat io" where
  "insert_batches chunk m recs i insertedCount =
     (if i < length recs \<and> 0 < chunk then
        io_bind
          (try_catch
             (io_bind
                (insertMany_unordered m
                   (map sanitizeRecord_fromEntries (slice recs i (i + chunk)))) (\<lambda>result.
              io_return (insertedCount + length result)))
             (\<lambda>err.
              io_bind (console Error (InsertErrorPlain err)) (\<lambda>_.
              io_return insertedCount)))
          (\<lambda>n. insert_batches chunk m recs (i + chunk) n)
      else io_return insertedCount)"
  by pat_completeness auto
termination
  by (relation "measure (\<lambda>(chunk, m, recs, i, n). length recs - i)") auto

declare insert_batches.simps [simp del]

text \<open>\<^verbatim>\<open>processFile\<close> of \<^verbatim>\<open>part_003\<close> (lines 78-119).\<close>

definition processFile_p3 :: "env \<Rightarrow> path \<Rightarrow> model \<Rightarrow> modelType \<Rightarrow> string \<Rightarrow> unit io" where
  "processFile_p3 e filePath m fileName folder =
     io_bind (existsSync e filePath) (\<lambda>found.
     if \<not> found then console Warn (FileMissing fileName folder)
     else
       io_bind (open_dbf e filePath) (\<lambda>dbf.
       io_bind (console Log (Reading fileName (recordCount dbf))) (\<lambda>_.
       io_bind (console Log (Deleting fileName)) (\<lambda>_.
       io_bind (deleteMany m) (\<lambda>_.
       io_bind (readRecords filePath dbf) (\<lambda>recs.
       io_bind (insert_batches batchSize m recs 0 0) (\<lambda>insertedCount.
       console Log (ImportDone fileName insertedCount (recordCount dbf)))))))))"

text \<open>\<^verbatim>\<open>importDbfsData\<close> of \<^verbatim>\<open>part_003\<close> (lines 122-181).\<close>

fun load_models_p3 :: "env \<Rightarrow> string \<Rightarrow> modelType list \<Rightarrow> (modelType \<times> model option) list io" where
  "load_models_p3 e folder [] = io_return []"
| "load_models_p3 e folder (t # ts) =
     io_bind (loadModel_p3 e folder t) (\<lambda>m.
     io_bind (load_models_p3 e folder ts) (\<lambda>ms.
     io_return ((t, m) # ms)))"

fun process_models_p3 :: "env \<Rightarrow> path \<Rightarrow> string \<Rightarrow> (modelType \<times> model option) list \<Rightarrow> unit io" where
  "process_models_p3 e folderPath folder [] = io_return ()"
| "process_models_p3 e folderPath folder ((fileName, model) # rest) =
     io_bind
       (case model of
          None \<Rightarrow> io_return ()
        | Some m \<Rightarrow>
            io_bind (processFile_p3 e (folderPath @ [fileMap fileName]) m fileName folder) (\<lambda>_.
            console Log Elapsed))
       (\<lambda>_. process_models_p3 e folderPath folder rest)"

definition process_folder_p3 :: "env \<Rightarrow> string \<Rightarrow> unit io" where
  "process_folder_p3 e folder =
     io_bind (existsSync e (DBF_FOLDER @ [folder])) (\<lambda>found.
     if \<not> found then console Warn (FolderNotFound (DBF_FOLDER @ [folder]))
     else
       io_bind (console Log (FolderStart folder)) (\<lambda>_.
       io_bind (load_models_p3 e folder modelTypes) (\<lambda>models.
       process_models_p3 e (DBF_FOLDER @ [folder]) folder models)))"

fun folder_loop_p3 :: "env \<Rightarrow> string list \<Rightarrow> unit io" where
  "folder_loop_p3 e [] = io_return ()"
| "folder_loop_p3 e (folder # rest) =
     io_bind (process_folder_p3 e folder) (\<lambda>_. folder_loop_p3 e rest)"

definition importDbfsData_on_p3 :: "env \<Rightarrow> string list \<Rightarrow> unit io" where
  "importDbfsData_on_p3 e fs =
     try_finally
       (try_catch
          (io_bind (connectDB e) (\<lambda>_.
           io_bind (folder_loop_p3 e fs) (\<lambda>_.
           io_bind (console Log AllDone) (\<lambda>_.
           console Log TotalElapsed))))
          (\<lambda>err.
           io_bind (console Error (ErrorMsg err)) (\<lambda>_.
           console Log ElapsedBeforeError)))
       (process_exit 0)"

definition main_on_p3 :: "env \<Rightarrow> string list \<Rightarrow> unit io" where
  "main_on_p3 e fs =
     (if falsy (mongoUri e) then
        io_bind (console Error UriUndefined) (\<lambda>_. process_exit 1)
      else importDbfsData_on_p3 e fs)"

definition main_p3 :: "env \<Rightarrow> unit io" where
  "main_p3 e = main_on_p3 e folders"

section \<open>The article-only script (\<^verbatim>\<open>part_002\<close>)\<close>

text \<open>
  \<^verbatim>\<open>part_002\<close> loads only \<^verbatim>\<open>article.dbf\<close> of each folder, inside \<^verbatim>\<open>importDbfsData\<close>
  itself. Its chunk loop (lines 101-106) calls \<^verbatim>\<open>insertMany(batch)\<close> with no
  \<^verbatim>\<open>try\<close> around it, and its outer \<^verbatim>\<open>catch\<close> exits with code 1 (lines 116-119).
\<close>

definition loadModel_p2 :: "env \<Rightarrow> string \<Rightarrow> model option io" where
  "loadModel_p2 e folder =
     try_catch
       (dynamic_import e (modelPath folder Article))
       (\<lambda>err.
        io_bind (console Warn (ModelLoadFailedFor folder err)) (\<lambda>_.
        io_return None))"

function insert_batches_p2 :: "nat \<Rightarrow> model \<Rightarrow> jsobject list \<Rightarrow> nat \<Rightarrow> nat \<Rightarrow> nat io" where
  "insert_batches_p2 chunk m recs i insertedCount =
     (if i < length recs \<and> 0 < chunk then
        io_bind
          (insertMany_ordered m
             (map sanitizeRecord_fromEntries (slice recs i (i + chunk)))) (\<lambda>result.
        insert_batches_p2 chunk m recs (i + chunk) (insertedCount + length result))
      else io_return insertedCount)"
  by pat_completeness auto
termination
  by (relation "measure (\<lambda>(chunk, m, recs, i, n). length recs - i)") auto

declare insert_batches_p2.simps [simp del]

definition process_folder_p2 :: "env \<Rightarrow> string \<Rightarrow> unit io" where
  "process_folder_p2 e folder =
     io_bind (existsSync e (DBF_FOLDER @ [folder])) (\<lambda>found.
     if \<not> found then console Warn (FolderNotFound (DBF_FOLDER @ [folder]))
     else
       io_bind (console Log (FolderStart folder)) (\<lambda>_.
       io_bind (loadModel_p2 e folder) (\<lambda>model.
       case model of
         None \<Rightarrow> io_return ()
       | Some m \<Rightarrow>
           io_bind (existsSync e (DBF_FOLDER @ [folder, ''article.dbf''])) (\<lambda>found.
           if \<not> found then console Warn (FileMissingIn (DBF_FOLDER @ [folder]))
           else
             io_bind (open_dbf e (DBF_FOLDER @ [folder, ''article.dbf''])) (\<lambda>dbf.
             io_bind (console Log
                        (ReadingPath (DBF_FOLDER @ [folder, ''article.dbf'']) (recordCount dbf))) (\<lambda>_.
             io_bind (console Log (DeletingFolder folder)) (\<lambda>_.
             io_bind (deleteMany m) (\<lambda>_.
             io_bind (readRecords (DBF_FOLDER @ [folder, ''article.dbf'']) dbf) (\<lambda>recs.
             io_bind (insert_batches_p2 batchSize m recs 0 0) (\<lambda>insertedCount.
             console Log (ImportDoneFolder folder insertedCount)))))))))))"

fun folder_loop_p2 :: "env \<Rightarrow> string list \<Rightarrow> unit io" where
  "folder_loop_p2 e [] = io_return ()"
| "folder_loop_p2 e (folder # rest) =
     io_bind (process_folder_p2 e folder) (\<lambda>_. folder_loop_p2 e rest)"

definition importDbfsData_on_p2 :: "env \<Rightarrow> string list \<Rightarrow> unit io" where
  "importDbfsData_on_p2 e fs =
     try_catch
       (io_bind (connectDB e) (\<lambda>_.
        io_bind (folder_loop_p2 e fs) (\<lambda>_.
        io_bind (console Log AllDone) (\<lambda>_.
        process_exit 0))))
       (\<lambda>err.
        io_bind (console Error (ErrorMsg err)) (\<lambda>_.
        process_exit 1))"

definition main_on_p2 :: "env \<Rightarrow> string list \<Rightarrow> unit io" where
  "main_on_p2 e fs =
     (if falsy (mongoUri e) then
        io_bind (console Error UriUndefined) (\<lambda>_. process_exit 1)
      else importDbfsData_on_p2 e fs)"

definition main_p2 :: "env \<Rightarrow> unit io" where
  "main_p2 e = main_on_p2 e folders"

section \<open>Reading a run\<close>

text \<open>
  What attempting a list of documents, one after the other, makes of a collection: the
  collection afterwards, the documents accepted, and the errors of the rejected ones.
\<close>

definition written :: "model \<Rightarrow> jsobject list \<Rightarrow> jsobject list \<Rightarrow> jsobject list" where
  "written m docs coll = fst (insert_unordered m docs coll)"

definition accepted :: "model \<Rightarrow> jsobject list \<Rightarrow> jsobject list \<Rightarrow> jsobject list" where
  "accepted m docs coll = fst (snd (insert_unordered m docs coll))"

definition rejections :: "model \<Rightarrow> jsobject list \<Rightarrow> jsobject list \<Rightarrow> string list" where
  "rejections m docs coll = snd (snd (insert_unordered m docs coll))"

text \<open>The documents an effect hands to the destination, and the kinds of effects.\<close>

fun attempted :: "effect \<Rightarrow> jsobject list" where
  "attempted (DbCreate c doc) = [doc]"
| "attempted (DbInsertMany c docs ordered) = docs"
| "attempted x = []"

fun is_db_op :: "effect \<Rightarrow> bool" where
  "is_db_op (DbDeleteMany c) = True"
| "is_db_op (DbCreate c doc) = True"
| "is_db_op (DbInsertMany c docs ordered) = True"
| "is_db_op x = False"

fun is_console :: "effect \<Rightarrow> bool" where
  "is_console (Console l msg) = True"
| "is_console x = False"

fun is_log_line :: "effect \<Rightarrow> bool" where
  "is_log_line (LogLine t msg) = True"
| "is_log_line x = False"

text \<open>
  The chunking property of the specification compares the chunked load with "loading
  all N at once": one unordered write of all the sanitized records.
\<close>

definition load_all_at_once :: "model \<Rightarrow> jsobject list \<Rightarrow> jsobject list io" where
  "load_all_at_once m recs = insertMany_unordered m (map sanitizeRecord_fromEntries recs)"

text \<open>
  The effects of the loop over the folders for a folder that does not exist
  (\<^verbatim>\<open>dbfToMongo.js\<close> lines 158-163, \<^verbatim>\<open>part_003\<close> lines 137-140): the look at the path and
  the warning, which \<^verbatim>\<open>dbfToMongo.js\<close> also logs.
\<close>

definition missing_folder_effects :: "env \<Rightarrow> string \<Rightarrow> effect list" where
  "missing_folder_effects e folder =
     [FsExists (DBF_FOLDER @ [folder]),
      Console Warn (FolderNotFound (DBF_FOLDER @ [folder])),
      LogLine (now e) (FolderNotFound (DBF_FOLDER @ [folder]))]"

definition missing_folder_effects_p3 :: "string \<Rightarrow> effect list" where
  "missing_folder_effects_p3 folder =
     [FsExists (DBF_FOLDER @ [folder]),
      Console Warn (FolderNotFound (DBF_FOLDER @ [folder]))]"

text \<open>
  The summary of a run: the lines \<^verbatim>\<open>processFile\<close> prints at the end of a load, with the
  record type, the inserted count and the record count of the archive.
\<close>

fun is_import_summary :: "effect \<Rightarrow> bool" where
  "is_import_summary (Console l (ImportDone fileName n k)) = True"
| "is_import_summary x = False"

definition run_summary :: "effect list \<Rightarrow> effect list" where
  "run_summary tr = filter is_import_summary tr"

section \<open>Example runs\<close>

text \<open>
  A small world for the concrete runs below: the folder \<^verbatim>\<open>_dbf/AVB\<close> exists and holds
  \<^verbatim>\<open>article.dbf\<close> with three records, the second of which the article model of AVB
  rejects (any document with a field \<^verbatim>\<open>BAD\<close>); no other folder, archive or model
  module exists.
\<close>

definition picky_model :: "string \<Rightarrow> model" where
  "picky_model c =
     \<lparr>collectionName = c,
      rejects = (\<lambda>coll doc. if hasOwnProperty doc ''BAD'' then Some ''validation failed'' else None),
      deleteMany_error = None\<rparr>"

definition rec1 :: jsobject where
  "rec1 = [(''NART'', VString ''A1''), (''PRIX'', VNumber NaN)]"

definition rec_bad :: jsobject where
  "rec_bad = [(''BAD'', VNull)]"

definition rec2 :: jsobject where
  "rec2 = [(''NART'', VString ''A2''), (''PRIX'', VNumber (Finite 5))]"

definition demo_env :: env where
  "demo_env =
     \<lparr>MONGO_URI = Some ''mongodb://localhost/robot'',
      MONGO_URI_DEV = None,
      mongoose_connect = (\<lambda>uri. None),
      now = 1000,
      appendFileSync_error = None,
      fs_existsSync = (\<lambda>p. p = [''_dbf'', ''AVB''] \<or> p = [''_dbf'', ''AVB'', ''article.dbf'']),
      DBFFile_open = (\<lambda>p.
        if p = [''_dbf'', ''AVB'', ''article.dbf'']
        then Inr \<lparr>recordCount = 3, readRecords_result = Inr [rec1, rec_bad, rec2]\<rparr>
        else Inl ''ENOENT''),
      import_default = (\<lambda>p.
        if p = [''models'', ''bases'', ''AVB'', ''AVBArticle.js'']
        then Inr (Some (picky_model ''avb_articles''))
        else Inl ''Cannot find module'')\<rparr>"

text \<open>The same world with an error log that cannot be written.\<close>

definition readonly_env :: env where
  "readonly_env = demo_env\<lparr>appendFileSync_error := Some ''EACCES''\<rparr>"

text \<open>The same world with a destination that cannot be reached.\<close>

definition offline_env :: env where
  "offline_env = demo_env\<lparr>mongoose_connect := (\<lambda>uri. Some ''ECONNREFUSED'')\<rparr>"

definition empty_db :: db where
  "empty_db = (\<lambda>c. [])"

text \<open>The three components of a run.\<close>

definition outcome_of :: "'a outcome \<times> db \<times> effect list \<Rightarrow> 'a outcome" where
  "outcome_of r = fst r"

definition db_of :: "'a outcome \<times> db \<times> effect list \<Rightarrow> db" where
  "db_of r = fst (snd r)"

definition effects_of :: "'a outcome \<times> db \<times> effect list \<Rightarrow> effect list" where
  "effects_of r = snd (snd r)"

text \<open>A computation that never ends the process.\<close>

definition no_exit :: "'a io \<Rightarrow> bool" where
  "no_exit m = (\<forall>db c. fst (m db) \<noteq> Exits c)"

text \<open>The demo world with an \<^verbatim>\<open>article.dbf\<close> that cannot be opened.\<close>

definition corrupt_env :: env where
  "corrupt_env = demo_env\<lparr>DBFFile_open := (\<lambda>p. Inl ''bad header'')\<rparr>"

text \<open>
  A world in which every folder but \<^verbatim>\<open>_dbf/ZZ\<close> exists, with all its model modules and
  all its archives (two records each, all accepted), and the error log cannot be written.
\<close>

definition plain_model :: "string \<Rightarrow> model" where
  "plain_model c = \<lparr>collectionName = c, rejects = (\<lambda>coll doc. None), deleteMany_error = None\<rparr>"

definition readonly_full_env :: env where
  "readonly_full_env =
     \<lparr>MONGO_URI = Some ''mongodb://localhost/robot'',
      MONGO_URI_DEV = None,
      mongoose_connect = (\<lambda>uri. None),
      now = 1000,
      appendFileSync_error = Some ''EACCES'',
      fs_existsSync = (\<lambda>p. p \<noteq> [''_dbf'', ''ZZ'']),
      DBFFile_open = (\<lambda>p. Inr \<lparr>recordCount = 2, readRecords_result = Inr [rec1, rec2]\<rparr>),
      import_default = (\<lambda>p. Inr (Some (plain_model (last p))))\<rparr>"

text \<open>That world with archives that cannot be opened.\<close>

definition readonly_corrupt_env :: env where
  "readonly_corrupt_env = readonly_full_env\<lparr>DBFFile_open := (\<lambda>p. Inl ''bad header'')\<rparr>"

section \<open>Properties of the sanitizer\<close>

lemma hasOwnProperty_keys: "hasOwnProperty obj key \<longleftrightarrow> key \<in> set (map fst obj)"
  by (induction obj key rule: hasOwnProperty.induct) auto

lemma get_property_map_of: "get_property obj key = map_of obj key"
  by (induction obj key rule: get_property.induct) auto

lemma get_property_None: "get_property obj key = None \<longleftrightarrow> \<not> hasOwnProperty obj key"
  by (induction obj key rule: get_property.induct) auto

lemma keys_set_property:
  "set (map fst (set_property obj key value)) = insert key (set (map fst obj))"
  by (induction obj key "value" rule: set_property.induct) auto

lemma distinct_set_property:
  "distinct (map fst obj) \<Longrightarrow> distinct (map fst (set_property obj key value))"
proof (induction obj key "value" rule: set_property.induct)
  case (1 key "value")
  then show ?case by simp
next
  case (2 k v ps key "value")
  then show ?case
    using keys_set_property [of ps key "value"] by auto
qed

lemma get_set_property:
  "get_property (set_property obj key value) k =
     (if k = key then Some value else get_property obj k)"
  by (induction obj key "value" rule: set_property.induct) auto

lemma values_set_property:
  "snd ` set (set_property obj key value) \<subseteq> insert value (snd ` set obj)"
  by (induction obj key "value" rule: set_property.induct) auto

lemma sanitizeValue_cases:
  "sanitizeValue v = (if v = VNumber NaN then VNumber (Finite 0) else v)"
  by (cases v) (auto simp: sanitizeValue_def)

lemma sanitizeValue_not_NaN: "sanitizeValue v \<noteq> VNumber NaN"
  by (simp add: sanitizeValue_cases)

lemma distinct_sanitize_entries:
  "distinct (map fst acc) \<Longrightarrow> distinct (map fst (sanitize_entries es acc))"
  by (induction es acc rule: sanitize_entries.induct) (simp_all add: distinct_set_property)

lemma get_sanitize_entries:
  "get_property (sanitize_entries es acc) k =
     (case get_property acc k of
        Some v \<Rightarrow> Some v
      | None \<Rightarrow> map_option sanitizeValue (get_property es k))"
proof (induction es acc rule: sanitize_entries.induct)
  case (1 sanitized)
  then show ?case by (simp split: option.split)
next
  case (2 key "value" es sanitized)
  show ?case
  proof (cases "hasOwnProperty sanitized key")
    case True
    then obtain v where "get_property sanitized key = Some v"
      using get_property_None [of sanitized key]
      by (cases "get_property sanitized key") auto
    with True 2 show ?thesis
      by (auto split: option.split)
  next
    case False
    then have "get_property sanitized key = None"
      by (simp add: get_property_None)
    with False 2 show ?thesis
      by (auto simp: get_set_property split: option.split)
  qed
qed

lemma values_sanitize_entries:
  "snd ` set (sanitize_entries es acc) \<subseteq> snd ` set acc \<union> sanitizeValue ` snd ` set es"
proof (induction es acc rule: sanitize_entries.induct)
  case (1 sanitized)
  then show ?case by simp
next
  case (2 key "value" es sanitized)
  have "snd ` set (set_property sanitized key (sanitizeValue value))
          \<subseteq> insert (sanitizeValue value) (snd ` set sanitized)"
    by (rule values_set_property)
  with 2 show ?case
    by (cases "hasOwnProperty sanitized key") (simp, blast)+
qed

lemma distinct_fromEntries_loop:
  "distinct (map fst acc) \<Longrightarrow> distinct (map fst (fromEntries_loop es acc))"
  by (induction es acc rule: fromEntries_loop.induct) (simp_all add: distinct_set_property)

lemma get_fromEntries_loop:
  "get_property (fromEntries_loop es acc) k =
     (case get_property (rev es) k of Some v \<Rightarrow> Some v | None \<Rightarrow> get_property acc k)"
proof (induction es acc rule: fromEntries_loop.induct)
  case (1 obj)
  then show ?case by simp
next
  case (2 key "value" es obj)
  then show ?case
    by (auto simp: get_property_map_of map_add_def get_set_property [unfolded get_property_map_of]
        split: option.split)
qed

lemma values_fromEntries_loop:
  "snd ` set (fromEntries_loop es acc) \<subseteq> snd ` set acc \<union> snd ` set es"
proof (induction es acc rule: fromEntries_loop.induct)
  case (1 obj)
  then show ?case by simp
next
  case (2 key "value" es obj)
  have "snd ` set (set_property obj key value) \<subseteq> insert value (snd ` set obj)"
    by (rule values_set_property)
  with 2 show ?case by auto
qed

lemma get_property_map_values:
  "get_property (map (\<lambda>(key, value). (key, f value)) es) k = map_option f (get_property es k)"
  by (induction es) auto

section \<open>Claims about the sanitizer and the error log\<close>

lemma sanitizeRecord_distinct: "distinct (own_keys (sanitizeRecord record))"
  by (simp add: own_keys_def sanitizeRecord_def distinct_sanitize_entries)

lemma sanitizeRecord_get:
  "get_property (sanitizeRecord record) k = map_option sanitizeValue (get_property record k)"
  by (simp add: sanitizeRecord_def get_sanitize_entries)

lemma sanitizeRecord_fromEntries_distinct:
  "distinct (own_keys (sanitizeRecord_fromEntries record))"
  by (simp add: own_keys_def sanitizeRecord_fromEntries_def fromEntries_def
      distinct_fromEntries_loop)

lemma rev_map_values:
  "rev (map (\<lambda>(key, value). (key, f value)) es) = map (\<lambda>(key, value). (key, f value)) (rev es)"
  by (simp add: rev_map)

lemma sanitizeRecord_fromEntries_get:
  "get_property (sanitizeRecord_fromEntries record) k =
     map_option sanitizeValue (get_property (rev record) k)"
proof -
  have "get_property (sanitizeRecord_fromEntries record) k =
          get_property (rev (map (\<lambda>(key, value). (key, sanitizeValue value)) record)) k"
    by (simp add: sanitizeRecord_fromEntries_def fromEntries_def get_fromEntries_loop
        split: option.split)
  then show ?thesis
    by (simp only: rev_map_values get_property_map_values)
qed

lemma sanitizeRecord_values:
  "snd ` set (sanitizeRecord record) \<subseteq> sanitizeValue ` snd ` set record"
  using values_sanitize_entries [of "record" "[]"] by (simp add: sanitizeRecord_def)

lemma sanitizeRecord_fromEntries_values:
  "snd ` set (sanitizeRecord_fromEntries record) \<subseteq> sanitizeValue ` snd ` set record"
proof -
  have "snd ` set (sanitizeRecord_fromEntries record)
          \<subseteq> snd ` set (map (\<lambda>(key, value). (key, sanitizeValue value)) record)"
    using values_fromEntries_loop
      [of "map (\<lambda>(key, value). (key, sanitizeValue value)) record" "[]"]
    by (simp add: sanitizeRecord_fromEntries_def fromEntries_def)
  also have "\<dots> = sanitizeValue ` snd ` set record"
    by (force simp: image_iff)
  finally show ?thesis .
qed

lemma sanitizers_agree:
  "distinct (map fst record) \<Longrightarrow> sanitizeRecord_fromEntries record = sanitizeRecord record"
proof -
  have fe: "distinct (map fst (acc @ es)) \<Longrightarrow>
        fromEntries_loop (map (\<lambda>(key, value). (key, sanitizeValue value)) es) acc =
        acc @ map (\<lambda>(key, value). (key, sanitizeValue value)) es" for es acc
  proof (induction es arbitrary: acc)
    case Nil
    then show ?case by simp
  next
    case (Cons p es)
    obtain key v where p: "p = (key, v)" by (cases p)
    have new: "\<And>value. key \<notin> fst ` set acc \<Longrightarrow> set_property acc key value = acc @ [(key, value)]"
      by (induction acc) auto
    from Cons.prems p have "key \<notin> fst ` set acc" by auto
    with Cons.IH [of "acc @ [(key, sanitizeValue v)]"] Cons.prems p new show ?case
      by simp
  qed
  have se: "distinct (map fst (acc @ es)) \<Longrightarrow>
        sanitize_entries es acc =
        acc @ map (\<lambda>(key, value). (key, sanitizeValue value)) es" for es acc
  proof (induction es arbitrary: acc)
    case Nil
    then show ?case by simp
  next
    case (Cons p es)
    obtain key v where p: "p = (key, v)" by (cases p)
    have new: "\<And>value. key \<notin> fst ` set acc \<Longrightarrow> set_property acc key value = acc @ [(key, value)]"
      by (induction acc) auto
    from Cons.prems p have fresh: "key \<notin> fst ` set acc" by auto
    then have "\<not> hasOwnProperty acc key" by (simp add: hasOwnProperty_keys)
    with Cons.IH [of "acc @ [(key, sanitizeValue v)]"] Cons.prems p new fresh show ?case
      by simp
  qed
  assume "distinct (map fst record)"
  then show ?thesis
    using fe [of "[]" "record"] se [of "[]" "record"]
    by (simp add: sanitizeRecord_fromEntries_def fromEntries_def sanitizeRecord_def)
qed

text \<open>
  Claim C3. \<^verbatim>\<open>sanitizeRecord\<close> of \<^verbatim>\<open>dbfToMongo.js\<close> emits each field name at most once
  and keeps the (sanitized) value of the first occurrence, on every list of pairs:
  \<open>get_property\<close> of an entry list is its first entry for the key. \<^verbatim>\<open>sanitizeRecord\<close> of
  \<^verbatim>\<open>part_001\<close> emits each field name at most once too, and on the entries of an object
  (no key twice, which is all \<^verbatim>\<open>Object.entries\<close> can give) it keeps that one occurrence
  of each name and gives the result of \<^verbatim>\<open>dbfToMongo.js\<close>. The result of either is an
  object.
\<close>

theorem C3_one_value_per_field_name:
  "distinct (own_keys (sanitizeRecord record)) \<and>
   get_property (sanitizeRecord record) k = map_option sanitizeValue (get_property record k) \<and>
   distinct (own_keys (sanitizeRecord_fromEntries record)) \<and>
   (is_object record \<longrightarrow>
      get_property (sanitizeRecord_fromEntries record) k =
        map_option sanitizeValue (get_property record k) \<and>
      sanitizeRecord_fromEntries record = sanitizeRecord record)"
  by (simp add: sanitizeRecord_distinct sanitizeRecord_get sanitizeRecord_fromEntries_distinct
      sanitizers_agree is_object_def own_keys_def [of "record"])

theorem C3_one_value_per_field_name_witness:
  "distinct (own_keys (sanitizeRecord [(''A'', VString ''first''), (''A'', VString ''last'')])) \<and>
   get_property (sanitizeRecord [(''A'', VString ''first''), (''A'', VString ''last'')]) ''A''
     = Some (VString ''first'') \<and>
   sanitizeRecord [(''A'', VString ''first''), (''B'', VNull), (''A'', VString ''last'')]
     = [(''A'', VString ''first''), (''B'', VNull)] \<and>
   is_object rec1 \<and>
   get_property (sanitizeRecord_fromEntries rec1) ''NART'' = Some (VString ''A1'') \<and>
   sanitizeRecord_fromEntries rec1 = sanitizeRecord rec1"
  using C3_one_value_per_field_name
    [of "[(''A'', VString ''first''), (''A'', VString ''last'')]" "''A''"]
    C3_one_value_per_field_name [of rec1 "''NART''"]
  by (simp add: sanitizeValue_def is_object_def own_keys_def rec1_def sanitizeRecord_def)

text \<open>
  Claim C4. In both sanitizers the value stored for a retained field is the value read,
  except that the number NaN is stored as the number 0; so no field of a sanitized
  record holds the number NaN. (The retained occurrence is the first one in
  \<^verbatim>\<open>dbfToMongo.js\<close> and the last one in \<^verbatim>\<open>part_003\<close>.)
\<close>

theorem C4_nan_stored_as_zero:
  "get_property (sanitizeRecord record) k =
     map_option (\<lambda>v. if v = VNumber NaN then VNumber (Finite 0) else v) (get_property record k) \<and>
   get_property (sanitizeRecord_fromEntries record) k =
     map_option (\<lambda>v. if v = VNumber NaN then VNumber (Finite 0) else v)
       (get_property (rev record) k) \<and>
   VNumber NaN \<notin> snd ` set (sanitizeRecord record) \<and>
   VNumber NaN \<notin> snd ` set (sanitizeRecord_fromEntries record)"
proof -
  have f: "sanitizeValue = (\<lambda>v. if v = VNumber NaN then VNumber (Finite 0) else v)"
    by (rule ext) (rule sanitizeValue_cases)
  have "VNumber NaN \<notin> sanitizeValue ` snd ` set record"
    using sanitizeValue_not_NaN by (metis imageE)
  then have "VNumber NaN \<notin> snd ` set (sanitizeRecord record)"
    and "VNumber NaN \<notin> snd ` set (sanitizeRecord_fromEntries record)"
    using sanitizeRecord_values [of "record"] sanitizeRecord_fromEntries_values [of "record"]
    by blast+
  then show ?thesis
    using sanitizeRecord_get [of "record" k] sanitizeRecord_fromEntries_get [of "record" k]
    by (simp add: f)
qed

theorem C4_nan_stored_as_zero_witness:
  "get_property (sanitizeRecord rec1) ''PRIX'' = Some (VNumber (Finite 0)) \<and>
   get_property (sanitizeRecord rec1) ''NART'' = Some (VString ''A1'') \<and>
   get_property (sanitizeRecord_fromEntries rec1) ''PRIX'' = Some (VNumber (Finite 0)) \<and>
   get_property (sanitizeRecord [(''D'', VDate NaN), (''N'', VNull)]) ''D'' = Some (VDate NaN) \<and>
   VNumber NaN \<notin> snd ` set (sanitizeRecord rec1)"
  using C4_nan_stored_as_zero [of rec1 "''PRIX''"] C4_nan_stored_as_zero [of rec1 "''NART''"]
    C4_nan_stored_as_zero [of "[(''D'', VDate NaN), (''N'', VNull)]" "''D''"]
  by (simp add: rec1_def)

text \<open>
  Claim C8, as the script has it. \<^verbatim>\<open>logError\<close> appends one line, the timestamp and the
  message, to \<^verbatim>\<open>./error.log\<close> when the write succeeds. When the write fails the error
  is not swallowed: \<^verbatim>\<open>logError\<close> raises it to its caller, and nothing is appended.
\<close>

theorem C8_logError_appends_or_raises:
  "logError e msg db =
     (case appendFileSync_error e of
        None \<Rightarrow> (Returns (), db, [LogLine (now e) msg])
      | Some err \<Rightarrow> (Throws err, db, []))"
  by (simp add: logError_def appendFileSync_def)

theorem C8_logError_appends_or_raises_witness:
  "logError demo_env (Critical ''boom'') empty_db =
     (Returns (), empty_db, [LogLine 1000 (Critical ''boom'')])"
  using C8_logError_appends_or_raises [of demo_env "Critical ''boom''" empty_db]
  by (simp add: demo_env_def)

text \<open>
  The claim as stated fails when \<^verbatim>\<open>./error.log\<close> cannot be written: the call raises.
\<close>

theorem C8_counterexample:
  "logError readonly_env (Critical ''boom'') empty_db = (Throws ''EACCES'', empty_db, [])"
  by (simp add: logError_def appendFileSync_def readonly_env_def demo_env_def)

section \<open>Control flow of the scripts\<close>


lemma no_exit_return: "no_exit (io_return a)"
  by (simp add: no_exit_def io_return_def)

lemma no_exit_console: "no_exit (console l msg)"
  by (simp add: no_exit_def console_def)

lemma no_exit_bind: "no_exit m \<Longrightarrow> (\<And>a. no_exit (f a)) \<Longrightarrow> no_exit (io_bind m f)"
  unfolding no_exit_def io_bind_def
  by (auto split: prod.splits outcome.splits) (metis fst_conv)+

lemma no_exit_try_catch: "no_exit m \<Longrightarrow> (\<And>err. no_exit (h err)) \<Longrightarrow> no_exit (try_catch m h)"
  unfolding no_exit_def try_catch_def
  by (auto split: prod.splits outcome.splits) (metis fst_conv)+

lemma no_exit_if: "no_exit a \<Longrightarrow> no_exit b \<Longrightarrow> no_exit (if c then a else b)"
  by simp

lemma no_exit_primitives:
  "no_exit (existsSync e p)" "no_exit (open_dbf e p)" "no_exit (readRecords p dbf)"
  "no_exit (dynamic_import e p)" "no_exit (connect e uri)" "no_exit (deleteMany m)"
  "no_exit (create m doc)" "no_exit (insertMany_unordered m docs)"
  "no_exit (insertMany_ordered m docs)" "no_exit (logError e msg)"
  by (auto simp: no_exit_def existsSync_def open_dbf_def readRecords_def dynamic_import_def
      connect_def deleteMany_def create_def insertMany_unordered_def insertMany_ordered_def
      logError_def appendFileSync_def split: sum.splits option.splits prod.splits list.splits)

lemmas no_exit_intros =
  no_exit_bind no_exit_try_catch no_exit_return no_exit_console no_exit_primitives no_exit_if

lemma no_exit_loadModel: "no_exit (loadModel e folder t)"
  unfolding loadModel_def by (intro no_exit_intros)

lemma no_exit_insert_records: "no_exit (insert_records e m fileName recs n)"
  by (induction recs arbitrary: n) (auto intro!: no_exit_intros)

lemma no_exit_processFile: "no_exit (processFile e filePath m fileName folder)"
  unfolding processFile_def by (intro no_exit_intros no_exit_insert_records)

lemma no_exit_load_models: "no_exit (load_models e folder ts)"
  by (induction ts) (auto intro!: no_exit_intros no_exit_loadModel)

lemma no_exit_process_models: "no_exit (process_models e folderPath folder ms)"
proof (induction ms)
  case Nil
  then show ?case by (simp add: no_exit_return)
next
  case (Cons p ms)
  obtain fileName model where p: "p = (fileName, model)" by (cases p)
  show ?case
    unfolding p process_models.simps
    by (cases model) (auto intro!: no_exit_intros no_exit_processFile Cons)
qed

lemma no_exit_process_folder: "no_exit (process_folder e folder)"
  unfolding process_folder_def
  by (intro no_exit_intros no_exit_load_models no_exit_process_models)

lemma no_exit_folder_loop: "no_exit (folder_loop e fs)"
  by (induction fs) (auto intro!: no_exit_intros no_exit_process_folder)



lemma no_exit_loadModel_p3: "no_exit (loadModel_p3 e folder t)"
  unfolding loadModel_p3_def by (intro no_exit_intros)

lemma no_exit_insert_batches: "no_exit (insert_batches chunk m recs i n)"
proof (induction chunk m recs i n rule: insert_batches.induct)
  case (1 chunk m recs i n)
  show ?case
  proof (cases "i < length recs \<and> 0 < chunk")
    case True
    have "no_exit (io_bind
          (try_catch
             (io_bind
                (insertMany_unordered m
                   (map sanitizeRecord_fromEntries (slice recs i (i + chunk)))) (\<lambda>result.
              io_return (n + length result)))
             (\<lambda>err.
              io_bind (console Error (InsertErrorPlain err)) (\<lambda>_.
              io_return n)))
          (\<lambda>n'. insert_batches chunk m recs (i + chunk) n'))"
      using True by (intro no_exit_intros 1) auto
    with True show ?thesis
      by (subst insert_batches.simps) simp
  next
    case False
    then show ?thesis
      by (subst insert_batches.simps) (auto simp: no_exit_return)
  qed
qed

lemma no_exit_processFile_p3: "no_exit (processFile_p3 e filePath m fileName folder)"
  unfolding processFile_p3_def by (intro no_exit_intros no_exit_insert_batches)

lemma no_exit_load_models_p3: "no_exit (load_models_p3 e folder ts)"
  by (induction ts) (auto intro!: no_exit_intros no_exit_loadModel_p3)

lemma no_exit_process_models_p3: "no_exit (process_models_p3 e folderPath folder ms)"
proof (induction ms)
  case Nil
  then show ?case by (simp add: no_exit_return)
next
  case (Cons p ms)
  obtain fileName model where p: "p = (fileName, model)" by (cases p)
  show ?case
    unfolding p process_models_p3.simps
    by (cases model) (auto intro!: no_exit_intros no_exit_processFile_p3 Cons)
qed

lemma no_exit_process_folder_p3: "no_exit (process_folder_p3 e folder)"
  unfolding process_folder_p3_def
  by (intro no_exit_intros no_exit_load_models_p3 no_exit_process_models_p3)

lemma no_exit_folder_loop_p3: "no_exit (folder_loop_p3 e fs)"
  by (induction fs) (auto intro!: no_exit_intros no_exit_process_folder_p3)

text \<open>The effects of a connection attempt that succeeds.\<close>

lemma connectDB_ok:
  "mongoose_connect e (uri_string (mongoUri e)) = None \<Longrightarrow>
   connectDB e db =
     (Returns (), db,
      [Console Log Connecting, MongoConnect (uri_string (mongoUri e)), Console Log Connected])"
  by (simp add: connectDB_def try_catch_def io_bind_def console_def connect_def)

lemma connectDB_fails:
  "mongoose_connect e (uri_string (mongoUri e)) = Some err \<Longrightarrow>
   connectDB e db =
     (Exits 1, db,
      [Console Log Connecting, MongoConnect (uri_string (mongoUri e)),
       Console Error (MongoError err)])"
  by (simp add: connectDB_def try_catch_def io_bind_def console_def connect_def process_exit_def)

text \<open>
  After a connection that succeeded, \<^verbatim>\<open>importDbfsData\<close> of \<^verbatim>\<open>dbfToMongo.js\<close> ends in
  the \<^verbatim>\<open>finally\<close> block, whatever the loop over the folders did.
\<close>

lemma importDbfsData_on_connected:
  assumes ok: "mongoose_connect e (uri_string (mongoUri e)) = None"
  shows "importDbfsData_on e fs db =
     (case folder_loop e fs db of
        (Returns u, db1, tr1) \<Rightarrow>
          (Exits 0, db1,
           [Console Log Connecting, MongoConnect (uri_string (mongoUri e)), Console Log Connected]
           @ tr1 @ [Console Log AllDone, Console Log TotalElapsed])
      | (Throws err, db1, tr1) \<Rightarrow>
          (Exits 0, db1,
           [Console Log Connecting, MongoConnect (uri_string (mongoUri e)), Console Log Connected]
           @ tr1 @ Console Error (ErrorMsg err) #
             (case appendFileSync_error e of
                None \<Rightarrow> [LogLine (now e) (Critical err)]
              | Some x \<Rightarrow> []))
      | (Exits c, db1, tr1) \<Rightarrow>
          (Exits c, db1,
           [Console Log Connecting, MongoConnect (uri_string (mongoUri e)), Console Log Connected]
           @ tr1))"
  by (simp add: importDbfsData_on_def try_finally_def try_catch_def io_bind_def
      connectDB_ok [OF ok] console_def process_exit_def logError_def appendFileSync_def
      split: prod.splits outcome.splits option.splits)

lemma importDbfsData_on_p3_connected:
  assumes ok: "mongoose_connect e (uri_string (mongoUri e)) = None"
  shows "importDbfsData_on_p3 e fs db =
     (case folder_loop_p3 e fs db of
        (Returns u, db1, tr1) \<Rightarrow>
          (Exits 0, db1,
           [Console Log Connecting, MongoConnect (uri_string (mongoUri e)), Console Log Connected]
           @ tr1 @ [Console Log AllDone, Console Log TotalElapsed])
      | (Throws err, db1, tr1) \<Rightarrow>
          (Exits 0, db1,
           [Console Log Connecting, MongoConnect (uri_string (mongoUri e)), Console Log Connected]
           @ tr1 @ [Console Error (ErrorMsg err), Console Log ElapsedBeforeError])
      | (Exits c, db1, tr1) \<Rightarrow>
          (Exits c, db1,
           [Console Log Connecting, MongoConnect (uri_string (mongoUri e)), Console Log Connected]
           @ tr1))"
  by (simp add: importDbfsData_on_p3_def try_finally_def try_catch_def io_bind_def
      connectDB_ok [OF ok] console_def process_exit_def
      split: prod.splits outcome.splits option.splits)

lemma importDbfsData_on_not_connected:
  assumes "mongoose_connect e (uri_string (mongoUri e)) = Some err"
  shows "importDbfsData_on e fs db =
     (Exits 1, db,
      [Console Log Connecting, MongoConnect (uri_string (mongoUri e)),
       Console Error (MongoError err)])"
    and "importDbfsData_on_p3 e fs db =
     (Exits 1, db,
      [Console Log Connecting, MongoConnect (uri_string (mongoUri e)),
       Console Error (MongoError err)])"
  by (simp_all add: importDbfsData_on_def importDbfsData_on_p3_def try_finally_def try_catch_def
      io_bind_def connectDB_fails [OF assms])

lemma folder_loop_outcome:
  "(\<exists>u. fst (folder_loop e fs db) = Returns u) \<or> (\<exists>err. fst (folder_loop e fs db) = Throws err)"
  using no_exit_folder_loop [of e fs]
  by (cases "fst (folder_loop e fs db)") (auto simp: no_exit_def)

lemma folder_loop_p3_outcome:
  "(\<exists>u. fst (folder_loop_p3 e fs db) = Returns u) \<or>
   (\<exists>err. fst (folder_loop_p3 e fs db) = Throws err)"
  using no_exit_folder_loop_p3 [of e fs]
  by (cases "fst (folder_loop_p3 e fs db)") (auto simp: no_exit_def)

lemma importDbfsData_on_exits_zero:
  assumes ok: "mongoose_connect e (uri_string (mongoUri e)) = None"
  shows "fst (importDbfsData_on e fs db) = Exits 0"
  using folder_loop_outcome [of e fs db]
  by (auto simp: importDbfsData_on_connected [OF ok] split: prod.splits outcome.splits)

lemma importDbfsData_on_p3_exits_zero:
  assumes ok: "mongoose_connect e (uri_string (mongoUri e)) = None"
  shows "fst (importDbfsData_on_p3 e fs db) = Exits 0"
  using folder_loop_p3_outcome [of e fs db]
  by (auto simp: importDbfsData_on_p3_connected [OF ok] split: prod.splits outcome.splits)



lemmas io_defs =
  io_bind_def io_return_def try_catch_def try_finally_def process_exit_def console_def
  existsSync_def open_dbf_def readRecords_def dynamic_import_def connect_def deleteMany_def
  create_def insertMany_unordered_def insertMany_ordered_def appendFileSync_def logError_def

lemmas script_defs =
  connectDB_def loadModel_def processFile_def process_folder_def importDbfsData_on_def
  main_on_def loadModel_p3_def processFile_p3_def process_folder_p3_def
  importDbfsData_on_p3_def main_on_p3_def loadModel_p2_def process_folder_p2_def
  importDbfsData_on_p2_def main_on_p2_def modelTypes_def DBF_FOLDER_def modelPath_def
  modelFileName_def mongoUri_def js_or_def falsy_def uri_string_def

lemmas example_defs =
  demo_env_def readonly_env_def offline_env_def corrupt_env_def picky_model_def
  rec1_def rec2_def rec_bad_def empty_db_def outcome_of_def db_of_def effects_of_def

section \<open>The loops that write the records\<close>

lemma insert_unordered_append:
  "insert_unordered m (xs @ ys) coll =
     (case insert_unordered m xs coll of
        (c1, ins1, errs1) \<Rightarrow>
          (case insert_unordered m ys c1 of
             (c2, ins2, errs2) \<Rightarrow> (c2, ins1 @ ins2, errs1 @ errs2)))"
  by (induction xs arbitrary: coll) (auto split: option.splits prod.splits)

lemma written_append:
  "written m (xs @ ys) coll = written m ys (written m xs coll)"
  by (simp add: written_def insert_unordered_append split: prod.splits)

lemma accepted_append:
  "accepted m (xs @ ys) coll = accepted m xs coll @ accepted m ys (written m xs coll)"
  by (simp add: accepted_def written_def insert_unordered_append split: prod.splits)

lemma rejections_append:
  "rejections m (xs @ ys) coll = rejections m xs coll @ rejections m ys (written m xs coll)"
  by (simp add: rejections_def written_def insert_unordered_append split: prod.splits)

lemma insert_unordered_triple:
  "insert_unordered m docs coll = (written m docs coll, accepted m docs coll, rejections m docs coll)"
  by (simp add: written_def accepted_def rejections_def)

lemma written_Nil [simp]: "written m [] coll = coll"
  and accepted_Nil [simp]: "accepted m [] coll = []"
  and rejections_Nil [simp]: "rejections m [] coll = []"
  by (simp_all add: written_def accepted_def rejections_def)

lemma written_Cons:
  "written m (d # ds) coll =
     (case rejects m coll d of None \<Rightarrow> written m ds (coll @ [d]) | Some err \<Rightarrow> written m ds coll)"
  and accepted_Cons:
  "accepted m (d # ds) coll =
     (case rejects m coll d of None \<Rightarrow> d # accepted m ds (coll @ [d]) | Some err \<Rightarrow> accepted m ds coll)"
  and rejections_Cons:
  "rejections m (d # ds) coll =
     (case rejects m coll d of None \<Rightarrow> rejections m ds (coll @ [d])
      | Some err \<Rightarrow> err # rejections m ds coll)"
  by (simp_all add: written_def accepted_def rejections_def split: option.splits prod.splits)

lemma written_accepted: "written m docs coll = coll @ accepted m docs coll"
  by (induction docs arbitrary: coll)
    (simp_all add: written_Cons accepted_Cons split: option.splits)

lemma length_accepted_rejections:
  "length (accepted m docs coll) + length (rejections m docs coll) = length docs"
  by (induction docs arbitrary: coll)
    (simp_all add: accepted_Cons rejections_Cons split: option.splits)

text \<open>One turn of the record loop of \<^verbatim>\<open>dbfToMongo.js\<close>.\<close>

lemma insert_records_accept:
  assumes "rejects m (db (collectionName m)) (sanitizeRecord r) = None"
  shows "insert_records e m f (r # rest) n db =
     (case insert_records e m f rest (n + 1)
             (db(collectionName m := db (collectionName m) @ [sanitizeRecord r])) of
        (out, db', tr) \<Rightarrow> (out, db', DbCreate (collectionName m) (sanitizeRecord r) # tr))"
  using assms by (simp add: io_defs split: prod.splits)

lemma insert_records_reject_logged:
  assumes "rejects m (db (collectionName m)) (sanitizeRecord r) = Some err"
    and "appendFileSync_error e = None"
  shows "insert_records e m f (r # rest) n db =
     (case insert_records e m f rest n db of
        (out, db', tr) \<Rightarrow>
          (out, db',
           DbCreate (collectionName m) (sanitizeRecord r) # Console Error (InsertError f err) #
           LogLine (now e) (InsertError f err) # tr))"
  using assms by (simp add: io_defs split: prod.splits)

lemma insert_records_reject_unlogged:
  assumes "rejects m (db (collectionName m)) (sanitizeRecord r) = Some err"
    and "appendFileSync_error e = Some x"
  shows "insert_records e m f (r # rest) n db =
     (Throws x, db,
      [DbCreate (collectionName m) (sanitizeRecord r), Console Error (InsertError f err)])"
  using assms by (simp add: io_defs split: prod.splits)

text \<open>
  The record loop when every rejection can be logged (or there is none): it returns,
  every record has been attempted, and the count is the number of accepted records.
\<close>

lemma insert_records_complete:
  assumes "appendFileSync_error e = None \<or>
           rejections m (map sanitizeRecord recs) (db (collectionName m)) = []"
  shows "\<exists>tr. insert_records e m f recs n db =
       (Returns (n + length (accepted m (map sanitizeRecord recs) (db (collectionName m)))),
        db(collectionName m := written m (map sanitizeRecord recs) (db (collectionName m))),
        tr) \<and>
     concat (map attempted tr) = map sanitizeRecord recs \<and>
     filter is_log_line tr =
       map (\<lambda>err. LogLine (now e) (InsertError f err))
         (rejections m (map sanitizeRecord recs) (db (collectionName m))) \<and>
     filter is_console tr =
       map (\<lambda>err. Console Error (InsertError f err))
         (rejections m (map sanitizeRecord recs) (db (collectionName m)))"
  using assms
proof (induction recs arbitrary: n db)
  case Nil
  then show ?case by (simp add: io_return_def)
next
  case (Cons r rest)
  show ?case
  proof (cases "rejects m (db (collectionName m)) (sanitizeRecord r)")
    case None
    let ?db1 = "db(collectionName m := db (collectionName m) @ [sanitizeRecord r])"
    from Cons.prems None
    have "appendFileSync_error e = None \<or>
          rejections m (map sanitizeRecord rest) (?db1 (collectionName m)) = []"
      by (simp add: rejections_Cons)
    from Cons.IH [of ?db1 "n + 1"] this obtain tr where
      tr: "insert_records e m f rest (n + 1) ?db1 =
        (Returns (n + 1 + length (accepted m (map sanitizeRecord rest) (?db1 (collectionName m)))),
         ?db1(collectionName m := written m (map sanitizeRecord rest) (?db1 (collectionName m))),
         tr)"
        "concat (map attempted tr) = map sanitizeRecord rest"
        "filter is_log_line tr =
          map (\<lambda>err. LogLine (now e) (InsertError f err))
            (rejections m (map sanitizeRecord rest) (?db1 (collectionName m)))"
        "filter is_console tr =
          map (\<lambda>err. Console Error (InsertError f err))
            (rejections m (map sanitizeRecord rest) (?db1 (collectionName m)))"
      by blast
    have step: "insert_records e m f (r # rest) n db =
        (case insert_records e m f rest (n + 1) ?db1 of
           (out, db', tr) \<Rightarrow> (out, db', DbCreate (collectionName m) (sanitizeRecord r) # tr))"
      using insert_records_accept [where m = m and db = db and r = r] None by blast
    have unfold:
      "written m (map sanitizeRecord (r # rest)) (db (collectionName m)) =
         written m (map sanitizeRecord rest) (?db1 (collectionName m))"
      "accepted m (map sanitizeRecord (r # rest)) (db (collectionName m)) =
         sanitizeRecord r # accepted m (map sanitizeRecord rest) (?db1 (collectionName m))"
      "rejections m (map sanitizeRecord (r # rest)) (db (collectionName m)) =
         rejections m (map sanitizeRecord rest) (?db1 (collectionName m))"
      using None by (simp_all add: written_Cons accepted_Cons rejections_Cons)
    have res: "insert_records e m f rest (n + 1) ?db1 =
        (Returns (n + 1 + length (accepted m (map sanitizeRecord rest) (?db1 (collectionName m)))),
         db(collectionName m := written m (map sanitizeRecord rest) (?db1 (collectionName m))),
         tr)"
      using tr(1) by simp
    have "insert_records e m f (r # rest) n db =
        (Returns (n + length (accepted m (map sanitizeRecord (r # rest)) (db (collectionName m)))),
         db(collectionName m := written m (map sanitizeRecord (r # rest)) (db (collectionName m))),
         DbCreate (collectionName m) (sanitizeRecord r) # tr)"
      unfolding step unfold res by simp
    moreover have "concat (map attempted (DbCreate (collectionName m) (sanitizeRecord r) # tr)) =
        map sanitizeRecord (r # rest)"
      using tr(2) by simp
    moreover have "filter is_log_line (DbCreate (collectionName m) (sanitizeRecord r) # tr) =
        map (\<lambda>err. LogLine (now e) (InsertError f err))
          (rejections m (map sanitizeRecord (r # rest)) (db (collectionName m)))"
      unfolding unfold using tr(3) by simp
    moreover have "filter is_console (DbCreate (collectionName m) (sanitizeRecord r) # tr) =
        map (\<lambda>err. Console Error (InsertError f err))
          (rejections m (map sanitizeRecord (r # rest)) (db (collectionName m)))"
      unfolding unfold using tr(4) by simp
    ultimately show ?thesis by blast
  next
    case (Some err)
    with Cons.prems have w: "appendFileSync_error e = None"
      by (auto simp: rejections_Cons)
    from Cons.IH [of db n] w obtain tr where
      tr: "insert_records e m f rest n db =
        (Returns (n + length (accepted m (map sanitizeRecord rest) (db (collectionName m)))),
         db(collectionName m := written m (map sanitizeRecord rest) (db (collectionName m))),
         tr)"
        "concat (map attempted tr) = map sanitizeRecord rest"
        "filter is_log_line tr =
          map (\<lambda>err. LogLine (now e) (InsertError f err))
            (rejections m (map sanitizeRecord rest) (db (collectionName m)))"
        "filter is_console tr =
          map (\<lambda>err. Console Error (InsertError f err))
            (rejections m (map sanitizeRecord rest) (db (collectionName m)))"
      by blast
    have step: "insert_records e m f (r # rest) n db =
        (case insert_records e m f rest n db of
           (out, db', tr) \<Rightarrow>
             (out, db',
              DbCreate (collectionName m) (sanitizeRecord r) # Console Error (InsertError f err) #
              LogLine (now e) (InsertError f err) # tr))"
      using insert_records_reject_logged [where m = m and db = db and r = r] Some w by blast
    have unfold:
      "written m (map sanitizeRecord (r # rest)) (db (collectionName m)) =
         written m (map sanitizeRecord rest) (db (collectionName m))"
      "accepted m (map sanitizeRecord (r # rest)) (db (collectionName m)) =
         accepted m (map sanitizeRecord rest) (db (collectionName m))"
      "rejections m (map sanitizeRecord (r # rest)) (db (collectionName m)) =
         err # rejections m (map sanitizeRecord rest) (db (collectionName m))"
      using Some by (simp_all add: written_Cons accepted_Cons rejections_Cons)
    let ?tr = "DbCreate (collectionName m) (sanitizeRecord r) # Console Error (InsertError f err) #
        LogLine (now e) (InsertError f err) # tr"
    have "insert_records e m f (r # rest) n db =
        (Returns (n + length (accepted m (map sanitizeRecord (r # rest)) (db (collectionName m)))),
         db(collectionName m := written m (map sanitizeRecord (r # rest)) (db (collectionName m))),
         ?tr)"
      unfolding step unfold using tr(1) by simp
    moreover have "concat (map attempted ?tr) = map sanitizeRecord (r # rest)"
      using tr(2) by simp
    moreover have "filter is_log_line ?tr =
        map (\<lambda>err. LogLine (now e) (InsertError f err))
          (rejections m (map sanitizeRecord (r # rest)) (db (collectionName m)))"
      unfolding unfold using tr(3) by simp
    moreover have "filter is_console ?tr =
        map (\<lambda>err. Console Error (InsertError f err))
          (rejections m (map sanitizeRecord (r # rest)) (db (collectionName m)))"
      unfolding unfold using tr(4) by simp
    ultimately show ?thesis by blast
  qed
qed

text \<open>
  The record loop when the error log cannot be written: the first rejection ends it
  with the write error, and the records after the rejected one are never attempted.
\<close>

lemma insert_records_aborts:
  assumes "appendFileSync_error e = Some x"
    and "rejections m (map sanitizeRecord recs) (db (collectionName m)) \<noteq> []"
  shows "\<exists>db' tr. insert_records e m f recs n db = (Throws x, db', tr)"
  using assms(2)
proof (induction recs arbitrary: n db)
  case Nil
  then show ?case by simp
next
  case (Cons r rest)
  show ?case
  proof (cases "rejects m (db (collectionName m)) (sanitizeRecord r)")
    case None
    let ?db1 = "db(collectionName m := db (collectionName m) @ [sanitizeRecord r])"
    from Cons.prems None
    have "rejections m (map sanitizeRecord rest) (?db1 (collectionName m)) \<noteq> []"
      by (simp add: rejections_Cons)
    moreover have "insert_records e m f (r # rest) n db =
        (case insert_records e m f rest (n + 1) ?db1 of
           (out, db', tr) \<Rightarrow> (out, db', DbCreate (collectionName m) (sanitizeRecord r) # tr))"
      using insert_records_accept [where m = m and db = db and r = r] None by blast
    ultimately show ?thesis
      using Cons.IH [of ?db1 "n + 1"] by (auto simp del: insert_records.simps fun_upd_apply)
  next
    case (Some err)
    with assms(1) show ?thesis
      using insert_records_reject_unlogged [where m = m and db = db and r = r] by blast
  qed
qed



text \<open>One turn of the chunk loop of \<^verbatim>\<open>part_003\<close>.\<close>

lemma insert_batches_done:
  "\<not> (i < length recs \<and> 0 < chunk) \<Longrightarrow> insert_batches chunk m recs i n db = (Returns n, db, [])"
  by (subst insert_batches.simps) (auto simp: io_return_def)

lemma insert_batches_step:
  assumes "i < length recs" and "0 < chunk"
  shows "insert_batches chunk m recs i n db =
     (case insert_batches chunk m recs (i + chunk)
             (if rejections m (map sanitizeRecord_fromEntries (slice recs i (i + chunk)))
                   (db (collectionName m)) = []
              then n + length (accepted m (map sanitizeRecord_fromEntries (slice recs i (i + chunk)))
                                 (db (collectionName m)))
              else n)
             (db(collectionName m :=
                   written m (map sanitizeRecord_fromEntries (slice recs i (i + chunk)))
                     (db (collectionName m)))) of
        (out, db', tr) \<Rightarrow>
          (out, db',
           DbInsertMany (collectionName m)
             (map sanitizeRecord_fromEntries (slice recs i (i + chunk))) False #
           (case rejections m (map sanitizeRecord_fromEntries (slice recs i (i + chunk)))
                   (db (collectionName m)) of
              [] \<Rightarrow> []
            | err # errs \<Rightarrow> [Console Error (InsertErrorPlain err)]) @ tr))"
  using assms
  by (subst insert_batches.simps)
    (simp add: io_defs insert_unordered_triple split: prod.splits list.splits)


lemma slice_drop:
  "map f (drop i recs) = map f (slice recs i (i + chunk)) @ map f (drop (i + chunk) recs)"
proof -
  have "drop (i + chunk) recs = drop chunk (drop i recs)"
    by (simp add: add.commute)
  then have "slice recs i (i + chunk) @ drop (i + chunk) recs = drop i recs"
    by (simp only: slice_def add_diff_cancel_left' append_take_drop_id)
  then show ?thesis
    by (metis map_append)
qed

lemma slice_nonempty: "i < length recs \<Longrightarrow> 0 < chunk \<Longrightarrow> slice recs i (i + chunk) \<noteq> []"
  by (simp add: slice_def)

text \<open>
  The chunk loop always returns. It leaves the collection as one attempt of all the
  remaining records would; it counts the chunks that were written without an error.
\<close>

lemma insert_batches_complete:
  assumes "0 < chunk"
  shows "\<exists>n' tr. insert_batches chunk m recs i n db =
       (Returns n',
        db(collectionName m :=
             written m (map sanitizeRecord_fromEntries (drop i recs)) (db (collectionName m))),
        tr) \<and>
     n \<le> n' \<and>
     n' \<le> n + length (accepted m (map sanitizeRecord_fromEntries (drop i recs))
                        (db (collectionName m))) \<and>
     (n' = n + length (drop i recs) \<longleftrightarrow>
        rejections m (map sanitizeRecord_fromEntries (drop i recs)) (db (collectionName m)) = []) \<and>
     concat (map attempted tr) = map sanitizeRecord_fromEntries (drop i recs) \<and>
     set (filter is_console tr) \<subseteq>
       (\<lambda>err. Console Error (InsertErrorPlain err)) `
         set (rejections m (map sanitizeRecord_fromEntries (drop i recs)) (db (collectionName m))) \<and>
     (filter is_console tr = [] \<longleftrightarrow>
        rejections m (map sanitizeRecord_fromEntries (drop i recs)) (db (collectionName m)) = []) \<and>
     filter is_log_line tr = []"
  using assms
proof (induction chunk m recs i n arbitrary: db rule: insert_batches.induct)
  case (1 chunk m recs i n)
  note pos = \<open>0 < chunk\<close>
  show ?case
  proof (cases "i < length recs")
    case False
    then show ?thesis
      by (simp add: insert_batches_done)
  next
    case True
    let ?c = "collectionName m"
    let ?D1 = "map sanitizeRecord_fromEntries (slice recs i (i + chunk))"
    let ?D2 = "map sanitizeRecord_fromEntries (drop (i + chunk) recs)"
    let ?D = "map sanitizeRecord_fromEntries (drop i recs)"
    let ?db1 = "db(?c := written m ?D1 (db ?c))"
    let ?n1 = "if rejections m ?D1 (db ?c) = [] then n + length (accepted m ?D1 (db ?c)) else n"
    have D: "?D = ?D1 @ ?D2"
      by (rule slice_drop)
    have lenD: "length (drop i recs) = length ?D1 + length ?D2"
      using arg_cong [OF D, of length] by simp
    have D1: "?D1 \<noteq> []"
      using True pos by (simp add: slice_nonempty)
    have w: "written m ?D (db ?c) = written m ?D2 (?db1 ?c)"
      and a: "accepted m ?D (db ?c) = accepted m ?D1 (db ?c) @ accepted m ?D2 (?db1 ?c)"
      and r: "rejections m ?D (db ?c) = rejections m ?D1 (db ?c) @ rejections m ?D2 (?db1 ?c)"
      unfolding D by (simp_all add: written_append accepted_append rejections_append)
    have len1: "length (accepted m ?D1 (db ?c)) + length (rejections m ?D1 (db ?c)) = length ?D1"
      by (rule length_accepted_rejections)
    have len2: "length (accepted m ?D2 (?db1 ?c)) + length (rejections m ?D2 (?db1 ?c)) = length ?D2"
      by (rule length_accepted_rejections)
    from "1.IH" [of "?n1" ?db1] True pos
    obtain n' tr where
      run: "insert_batches chunk m recs (i + chunk) ?n1 ?db1 =
         (Returns n', ?db1(?c := written m ?D2 (?db1 ?c)), tr)"
      and lo: "?n1 \<le> n'"
      and hi: "n' \<le> ?n1 + length (accepted m ?D2 (?db1 ?c))"
      and full: "n' = ?n1 + length (drop (i + chunk) recs) \<longleftrightarrow> rejections m ?D2 (?db1 ?c) = []"
      and att: "concat (map attempted tr) = ?D2"
      and con: "set (filter is_console tr) \<subseteq>
         (\<lambda>err. Console Error (InsertErrorPlain err)) ` set (rejections m ?D2 (?db1 ?c))"
      and con0: "filter is_console tr = [] \<longleftrightarrow> rejections m ?D2 (?db1 ?c) = []"
      and nolog: "filter is_log_line tr = []"
      by blast
    let ?tr = "DbInsertMany ?c ?D1 False #
        (case rejections m ?D1 (db ?c) of
           [] \<Rightarrow> []
         | err # errs \<Rightarrow> [Console Error (InsertErrorPlain err)]) @ tr"
    have run': "insert_batches chunk m recs (i + chunk) ?n1 ?db1 =
         (Returns n', db(?c := written m ?D (db ?c)), tr)"
      using run unfolding w by simp
    have "insert_batches chunk m recs i n db = (Returns n', db(?c := written m ?D (db ?c)), ?tr)"
      using insert_batches_step [OF True pos, of m n db] run' by simp
    moreover have "n \<le> n'"
      using lo by (simp split: if_splits)
    moreover have "n' \<le> n + length (accepted m ?D (db ?c))"
      using hi unfolding a by (simp split: if_splits)
    moreover have "n' = n + length (drop i recs) \<longleftrightarrow> rejections m ?D (db ?c) = []"
    proof (cases "rejections m ?D1 (db ?c) = []")
      case True
      with len1 have "length (accepted m ?D1 (db ?c)) = length ?D1" by simp
      with True full show ?thesis
        unfolding r lenD by auto
    next
      case False
      with hi len2 have "n' \<le> n + length ?D2" by simp
      moreover have "0 < length ?D1" using D1 by simp
      ultimately have "n' \<noteq> n + length (drop i recs)"
        unfolding lenD by linarith
      with False show ?thesis
        unfolding r by simp
    qed
    moreover have "concat (map attempted ?tr) = ?D"
      unfolding D using att by (cases "rejections m ?D1 (db ?c)") simp_all
    moreover have "set (filter is_console ?tr) \<subseteq>
         (\<lambda>err. Console Error (InsertErrorPlain err)) ` set (rejections m ?D (db ?c))"
      unfolding r using con by (cases "rejections m ?D1 (db ?c)") auto
    moreover have "filter is_console ?tr = [] \<longleftrightarrow> rejections m ?D (db ?c) = []"
      unfolding r using con0 by (cases "rejections m ?D1 (db ?c)") simp_all
    moreover have "filter is_log_line ?tr = []"
      using nolog by (cases "rejections m ?D1 (db ?c)") simp_all
    ultimately show ?thesis
      by blast
  qed
qed

section \<open>The article-only script: a write failure ends the run\<close>

lemma insert_ordered_append:
  "insert_ordered m (xs @ ys) coll =
     (case insert_ordered m xs coll of
        (c1, None) \<Rightarrow> insert_ordered m ys c1
      | (c1, Some err) \<Rightarrow> (c1, Some err))"
  by (induction xs arbitrary: coll) (auto split: option.splits prod.splits)

lemma insert_batches_p2_done:
  "\<not> (i < length recs \<and> 0 < chunk) \<Longrightarrow>
   insert_batches_p2 chunk m recs i n db = (Returns n, db, [])"
  by (subst insert_batches_p2.simps) (auto simp: io_return_def)

lemma insert_batches_p2_step:
  assumes "i < length recs" and "0 < chunk"
  shows "insert_batches_p2 chunk m recs i n db =
     (case insert_ordered m (map sanitizeRecord_fromEntries (slice recs i (i + chunk)))
             (db (collectionName m)) of
        (c, None) \<Rightarrow>
          (case insert_batches_p2 chunk m recs (i + chunk)
                  (n + length (slice recs i (i + chunk))) (db(collectionName m := c)) of
             (out, db', tr) \<Rightarrow>
               (out, db',
                DbInsertMany (collectionName m)
                  (map sanitizeRecord_fromEntries (slice recs i (i + chunk))) True # tr))
      | (c, Some err) \<Rightarrow>
          (Throws err, db(collectionName m := c),
           [DbInsertMany (collectionName m)
              (map sanitizeRecord_fromEntries (slice recs i (i + chunk))) True]))"
  using assms
  by (subst insert_batches_p2.simps)
    (simp add: io_defs split: prod.splits option.splits)

text \<open>
  The chunk loop of \<^verbatim>\<open>part_002\<close> writes the records in order up to the first one the
  destination rejects, and raises the error of that one.
\<close>

lemma insert_batches_p2_result:
  assumes "0 < chunk"
  shows "\<exists>tr. insert_batches_p2 chunk m recs i n db =
       ((case snd (insert_ordered m (map sanitizeRecord_fromEntries (drop i recs))
                     (db (collectionName m))) of
           None \<Rightarrow> Returns (n + length (drop i recs))
         | Some err \<Rightarrow> Throws err),
        db(collectionName m :=
             fst (insert_ordered m (map sanitizeRecord_fromEntries (drop i recs))
                    (db (collectionName m)))),
        tr)"
  using assms
proof (induction chunk m recs i n arbitrary: db rule: insert_batches_p2.induct)
  case (1 chunk m recs i n)
  note pos = \<open>0 < chunk\<close>
  show ?case
  proof (cases "i < length recs")
    case False
    then show ?thesis
      by (simp add: insert_batches_p2_done)
  next
    case True
    let ?c = "collectionName m"
    let ?D1 = "map sanitizeRecord_fromEntries (slice recs i (i + chunk))"
    let ?D2 = "map sanitizeRecord_fromEntries (drop (i + chunk) recs)"
    let ?D = "map sanitizeRecord_fromEntries (drop i recs)"
    have D: "?D = ?D1 @ ?D2"
      by (rule slice_drop)
    have lenD: "length (drop i recs) = length (slice recs i (i + chunk)) + length (drop (i + chunk) recs)"
      using arg_cong [OF D, of length] by simp
    obtain c1 r1 where first: "insert_ordered m ?D1 (db ?c) = (c1, r1)"
      by (cases "insert_ordered m ?D1 (db ?c)") auto
    show ?thesis
    proof (cases r1)
      case (Some err)
      with first have res: "insert_ordered m ?D (db ?c) = (c1, Some err)"
        unfolding D by (simp add: insert_ordered_append)
      have run: "insert_batches_p2 chunk m recs i n db =
          (Throws err, db(?c := c1), [DbInsertMany ?c ?D1 True])"
        using insert_batches_p2_step [OF True pos, of m n db] first Some by simp
      show ?thesis
        unfolding res run by (simp add: fun_eq_iff)
    next
      case None
      let ?db1 = "db(?c := c1)"
      from first None have all: "insert_ordered m ?D (db ?c) = insert_ordered m ?D2 (?db1 ?c)"
        unfolding D by (simp add: insert_ordered_append)
      from "1.IH" [of "slice recs i (i + chunk)" ?db1] True pos
      obtain tr where
        run: "insert_batches_p2 chunk m recs (i + chunk) (n + length (slice recs i (i + chunk))) ?db1 =
         ((case snd (insert_ordered m ?D2 (?db1 ?c)) of
             None \<Rightarrow> Returns (n + length (slice recs i (i + chunk)) + length (drop (i + chunk) recs))
           | Some err \<Rightarrow> Throws err),
          ?db1(?c := fst (insert_ordered m ?D2 (?db1 ?c))),
          tr)"
        by blast
      have run': "insert_batches_p2 chunk m recs (i + chunk) (n + length (slice recs i (i + chunk))) ?db1 =
         ((case snd (insert_ordered m ?D (db ?c)) of
             None \<Rightarrow> Returns (n + length (drop i recs))
           | Some err \<Rightarrow> Throws err),
          db(?c := fst (insert_ordered m ?D (db ?c))),
          tr)"
        using run unfolding all lenD
        by (cases "snd (insert_ordered m ?D2 (?db1 ?c))") (simp_all add: add.assoc)
      have "insert_batches_p2 chunk m recs i n db =
         ((case snd (insert_ordered m ?D (db ?c)) of
             None \<Rightarrow> Returns (n + length (drop i recs))
           | Some err \<Rightarrow> Throws err),
          db(?c := fst (insert_ordered m ?D (db ?c))),
          DbInsertMany ?c ?D1 True # tr)"
        using insert_batches_p2_step [OF True pos, of m n db] first None run' by simp
      then show ?thesis by blast
    qed
  qed
qed

lemma no_exit_loadModel_p2: "no_exit (loadModel_p2 e folder)"
  unfolding loadModel_p2_def by (intro no_exit_intros)

lemma no_exit_insert_batches_p2: "no_exit (insert_batches_p2 chunk m recs i n)"
proof (cases "0 < chunk")
  case True
  show ?thesis
    unfolding no_exit_def
  proof (intro allI)
    fix db c
    from insert_batches_p2_result [OF True, of m recs i n db]
    show "fst (insert_batches_p2 chunk m recs i n db) \<noteq> Exits c"
      by (auto split: option.splits)
  qed
next
  case False
  then show ?thesis
    by (simp add: no_exit_def insert_batches_p2_done)
qed

lemma no_exit_case_option:
  "no_exit a \<Longrightarrow> (\<And>x. no_exit (f x)) \<Longrightarrow> no_exit (case v of None \<Rightarrow> a | Some x \<Rightarrow> f x)"
  by (cases v) simp_all

lemma no_exit_process_folder_p2: "no_exit (process_folder_p2 e folder)"
  unfolding process_folder_p2_def
  by (intro no_exit_intros no_exit_case_option no_exit_loadModel_p2 no_exit_insert_batches_p2)

lemma no_exit_folder_loop_p2: "no_exit (folder_loop_p2 e fs)"
  by (induction fs) (auto intro!: no_exit_intros no_exit_process_folder_p2)

text \<open>
  After a connection that succeeded, \<^verbatim>\<open>importDbfsData\<close> of \<^verbatim>\<open>part_002\<close> exits with
  code 0 when the loop over the folders returns, and with code 1 when it throws.
\<close>

lemma importDbfsData_on_p2_connected:
  assumes ok: "mongoose_connect e (uri_string (mongoUri e)) = None"
  shows "importDbfsData_on_p2 e fs db =
     (case folder_loop_p2 e fs db of
        (Returns u, db1, tr1) \<Rightarrow>
          (Exits 0, db1,
           [Console Log Connecting, MongoConnect (uri_string (mongoUri e)), Console Log Connected]
           @ tr1 @ [Console Log AllDone])
      | (Throws err, db1, tr1) \<Rightarrow>
          (Exits 1, db1,
           [Console Log Connecting, MongoConnect (uri_string (mongoUri e)), Console Log Connected]
           @ tr1 @ [Console Error (ErrorMsg err)])
      | (Exits c, db1, tr1) \<Rightarrow>
          (Exits c, db1,
           [Console Log Connecting, MongoConnect (uri_string (mongoUri e)), Console Log Connected]
           @ tr1))"
  by (simp add: importDbfsData_on_p2_def try_catch_def io_bind_def
      connectDB_ok [OF ok] console_def process_exit_def
      split: prod.splits outcome.splits)

lemma folder_loop_p2_append:
  "folder_loop_p2 e (pre @ post) db =
     (case folder_loop_p2 e pre db of
        (Returns u, db1, tr1) \<Rightarrow>
          (case folder_loop_p2 e post db1 of (r, db2, tr2) \<Rightarrow> (r, db2, tr1 @ tr2))
      | (Throws err, db1, tr1) \<Rightarrow> (Throws err, db1, tr1)
      | (Exits c, db1, tr1) \<Rightarrow> (Exits c, db1, tr1))"
proof (induction pre arbitrary: db)
  case Nil
  then show ?case by (simp add: io_return_def split: prod.splits)
next
  case (Cons f pre)
  show ?case
    by (cases "process_folder_p2 e f db")
      (auto simp: io_bind_def Cons split: prod.splits outcome.splits)
qed

text \<open>
  A folder of \<^verbatim>\<open>part_002\<close> whose archive is read and holds a record that the destination
  rejects: the loop body throws the error of the rejection.
\<close>

lemma process_folder_p2_write_failure:
  assumes "fs_existsSync e (DBF_FOLDER @ [folder])"
    and "import_default e (modelPath folder Article) = Inr (Some m)"
    and "fs_existsSync e (DBF_FOLDER @ [folder, ''article.dbf''])"
    and "DBFFile_open e (DBF_FOLDER @ [folder, ''article.dbf'']) = Inr dbf"
    and "deleteMany_error m = None"
    and "readRecords_result dbf = Inr recs"
    and "snd (insert_ordered m (map sanitizeRecord_fromEntries recs) []) = Some err"
  shows "outcome_of (process_folder_p2 e folder db) = Throws err"
proof -
  let ?db1 = "db(collectionName m := [])"
  have pos: "0 < batchSize" by (simp add: batchSize_def)
  from insert_batches_p2_result [OF pos, of m recs 0 0 ?db1] assms(7)
  obtain db2 tr where "insert_batches_p2 batchSize m recs 0 0 ?db1 = (Throws err, db2, tr)"
    by auto
  with assms(1-6) show ?thesis
    by (simp add: process_folder_p2_def loadModel_p2_def io_defs outcome_of_def)
qed



lemma folder_loop_p2_write_failure:
  assumes "outcome_of (folder_loop_p2 e pre db) = Returns ()"
    and "\<And>db. outcome_of (process_folder_p2 e folder db) = Throws err"
  shows "outcome_of (folder_loop_p2 e (pre @ folder # post) db) = Throws err"
proof -
  obtain db1 tr1 where pre: "folder_loop_p2 e pre db = (Returns (), db1, tr1)"
    using assms(1) by (cases "folder_loop_p2 e pre db") (auto simp: outcome_of_def)
  obtain db2 tr2 where "process_folder_p2 e folder db1 = (Throws err, db2, tr2)"
    using assms(2) [of db1] by (cases "process_folder_p2 e folder db1") (auto simp: outcome_of_def)
  with pre show ?thesis
    by (simp add: folder_loop_p2_append io_bind_def outcome_of_def)
qed

lemma main_on_p2_throw_exits_one:
  assumes "\<not> falsy (mongoUri e)"
    and "mongoose_connect e (uri_string (mongoUri e)) = None"
    and "outcome_of (folder_loop_p2 e fs db) = Throws err"
  shows "outcome_of (main_on_p2 e fs db) = Exits 1"
    and "Console Error (ErrorMsg err) \<in> set (effects_of (main_on_p2 e fs db))"
  using assms
  by (auto simp: main_on_p2_def outcome_of_def effects_of_def importDbfsData_on_p2_connected
      split: prod.splits outcome.splits)

section \<open>Claims about the run as a whole\<close>


text \<open>
  Claim C2. When the connection string is unset (or empty), or when the connection
  attempt fails, the script exits with code 1; all it has done by then is to print (and
  to try the connection): the destination is untouched, no folder or archive has been
  looked at and no import summary has been printed. No other run of the script exits
  with a code other than 0.
\<close>

theorem C2_only_connection_is_fatal:
  "(falsy (mongoUri e) \<longrightarrow>
      main_on e fs db = (Exits 1, db, [Console Error UriUndefined])) \<and>
   (\<not> falsy (mongoUri e) \<and> mongoose_connect e (uri_string (mongoUri e)) = Some err \<longrightarrow>
      main_on e fs db =
        (Exits 1, db,
         [Console Log Connecting, MongoConnect (uri_string (mongoUri e)),
          Console Error (MongoError err)])) \<and>
   (\<not> falsy (mongoUri e) \<and> mongoose_connect e (uri_string (mongoUri e)) = None \<longrightarrow>
      outcome_of (main_on e fs db) = Exits 0)"
  by (simp add: main_on_def io_bind_def console_def process_exit_def outcome_of_def
      importDbfsData_on_not_connected importDbfsData_on_exits_zero)

theorem C2_only_connection_is_fatal_witness:
  "main offline_env empty_db =
     (Exits 1, empty_db,
      [Console Log Connecting, MongoConnect ''mongodb://localhost/robot'',
       Console Error (MongoError ''ECONNREFUSED'')]) \<and>
   main (demo_env\<lparr>MONGO_URI := Some ''''\<rparr>) empty_db =
     (Exits 1, empty_db, [Console Error UriUndefined]) \<and>
   outcome_of (main demo_env empty_db) = Exits 0"
  using C2_only_connection_is_fatal [of offline_env folders empty_db "''ECONNREFUSED''"]
    C2_only_connection_is_fatal [of "demo_env\<lparr>MONGO_URI := Some ''''\<rparr>" folders empty_db "''x''"]
    C2_only_connection_is_fatal [of demo_env folders empty_db "''x''"]
  by (simp add: main_def offline_env_def demo_env_def falsy_def mongoUri_def js_or_def
      uri_string_def)

text \<open>
  Claim C10, as the scripts have it. When the connection string is set and the
  connection succeeds, both \<^verbatim>\<open>dbfToMongo.js\<close> and \<^verbatim>\<open>part_003\<close> end with exit code 0,
  whatever happens in the loop over the folders. An error that escapes that loop is
  caught and printed with \<^verbatim>\<open>console.error\<close>. After printing it, \<^verbatim>\<open>dbfToMongo.js\<close>
  appends it to the error log as a critical error when that write succeeds, and logs
  nothing when it fails; \<^verbatim>\<open>part_003\<close> prints the elapsed time and logs nothing.
\<close>

theorem C10_escaping_error_exits_zero:
  assumes "\<not> falsy (mongoUri e)"
    and "mongoose_connect e (uri_string (mongoUri e)) = None"
  shows "outcome_of (main_on e fs db) = Exits 0 \<and>
    outcome_of (main_on_p3 e fs db) = Exits 0 \<and>
    (\<forall>err. outcome_of (folder_loop e fs db) = Throws err \<longrightarrow>
       Console Error (ErrorMsg err) \<in> set (effects_of (main_on e fs db)) \<and>
       (appendFileSync_error e = None \<longrightarrow>
          LogLine (now e) (Critical err) \<in> set (effects_of (main_on e fs db)))) \<and>
    (\<forall>err. outcome_of (folder_loop_p3 e fs db) = Throws err \<longrightarrow>
       Console Error (ErrorMsg err) \<in> set (effects_of (main_on_p3 e fs db))) \<and>
    (\<forall>err. outcome_of (folder_loop e fs db) = Throws err \<longrightarrow>
       effects_of (main_on e fs db) =
         [Console Log Connecting, MongoConnect (uri_string (mongoUri e)), Console Log Connected]
         @ effects_of (folder_loop e fs db) @ Console Error (ErrorMsg err) #
           (case appendFileSync_error e of
              None \<Rightarrow> [LogLine (now e) (Critical err)]
            | Some x \<Rightarrow> [])) \<and>
    (\<forall>err. outcome_of (folder_loop_p3 e fs db) = Throws err \<longrightarrow>
       effects_of (main_on_p3 e fs db) =
         [Console Log Connecting, MongoConnect (uri_string (mongoUri e)), Console Log Connected]
         @ effects_of (folder_loop_p3 e fs db) @
           [Console Error (ErrorMsg err), Console Log ElapsedBeforeError])"
proof -
  have "outcome_of (main_on e fs db) = Exits 0"
    using assms by (simp add: main_on_def outcome_of_def importDbfsData_on_exits_zero)
  moreover have "outcome_of (main_on_p3 e fs db) = Exits 0"
    using assms by (simp add: main_on_p3_def outcome_of_def importDbfsData_on_p3_exits_zero)
  moreover have "effects_of (main_on e fs db) =
         [Console Log Connecting, MongoConnect (uri_string (mongoUri e)), Console Log Connected]
         @ effects_of (folder_loop e fs db) @ Console Error (ErrorMsg err) #
           (case appendFileSync_error e of
              None \<Rightarrow> [LogLine (now e) (Critical err)]
            | Some x \<Rightarrow> [])"
    if "outcome_of (folder_loop e fs db) = Throws err" for err
    using assms that
    by (auto simp: main_on_def outcome_of_def effects_of_def importDbfsData_on_connected
        split: prod.splits outcome.splits option.splits)
  moreover have "effects_of (main_on_p3 e fs db) =
         [Console Log Connecting, MongoConnect (uri_string (mongoUri e)), Console Log Connected]
         @ effects_of (folder_loop_p3 e fs db) @
           [Console Error (ErrorMsg err), Console Log ElapsedBeforeError]"
    if "outcome_of (folder_loop_p3 e fs db) = Throws err" for err
    using assms that
    by (auto simp: main_on_p3_def outcome_of_def effects_of_def importDbfsData_on_p3_connected
        split: prod.splits outcome.splits option.splits)
  moreover have "Console Error (ErrorMsg err) \<in> set (effects_of (main_on e fs db)) \<and>
       (appendFileSync_error e = None \<longrightarrow>
          LogLine (now e) (Critical err) \<in> set (effects_of (main_on e fs db)))"
    if "outcome_of (folder_loop e fs db) = Throws err" for err
    using assms that
    by (auto simp: main_on_def outcome_of_def effects_of_def importDbfsData_on_connected
        split: prod.splits outcome.splits option.splits)
  moreover have "Console Error (ErrorMsg err) \<in> set (effects_of (main_on_p3 e fs db))"
    if "outcome_of (folder_loop_p3 e fs db) = Throws err" for err
    using assms that
    by (auto simp: main_on_p3_def outcome_of_def effects_of_def importDbfsData_on_p3_connected
        split: prod.splits outcome.splits option.splits)
  ultimately show ?thesis by blast
qed

lemma corrupt_run:
  "outcome_of (folder_loop corrupt_env [''AVB''] empty_db) = Throws ''bad header''"
  by (simp add: io_defs script_defs example_defs)

lemma corrupt_run_p3:
  "outcome_of (folder_loop_p3 corrupt_env [''AVB''] empty_db) = Throws ''bad header''"
  by (simp add: io_defs script_defs example_defs)

theorem C10_escaping_error_exits_zero_witness:
  "outcome_of (folder_loop corrupt_env [''AVB''] empty_db) = Throws ''bad header'' \<and>
   outcome_of (main_on corrupt_env [''AVB''] empty_db) = Exits 0 \<and>
   Console Error (ErrorMsg ''bad header'') \<in> set (effects_of (main_on corrupt_env [''AVB''] empty_db)) \<and>
   LogLine 1000 (Critical ''bad header'') \<in> set (effects_of (main_on corrupt_env [''AVB''] empty_db)) \<and>
   outcome_of (main_on_p3 corrupt_env [''AVB''] empty_db) = Exits 0 \<and>
   Console Error (ErrorMsg ''bad header'') \<in> set (effects_of (main_on_p3 corrupt_env [''AVB''] empty_db))"
proof -
  have uri: "\<not> falsy (mongoUri corrupt_env)"
    by (simp add: falsy_def mongoUri_def js_or_def corrupt_env_def demo_env_def)
  have conn: "mongoose_connect corrupt_env (uri_string (mongoUri corrupt_env)) = None"
    by (simp add: corrupt_env_def demo_env_def)
  have log: "appendFileSync_error corrupt_env = None" "now corrupt_env = 1000"
    by (simp_all add: corrupt_env_def demo_env_def)
  have "Console Error (ErrorMsg ''bad header'') \<in> set (effects_of (main_on corrupt_env [''AVB''] empty_db))"
    "LogLine 1000 (Critical ''bad header'') \<in> set (effects_of (main_on corrupt_env [''AVB''] empty_db))"
    "Console Error (ErrorMsg ''bad header'') \<in> set (effects_of (main_on_p3 corrupt_env [''AVB''] empty_db))"
    "outcome_of (main_on corrupt_env [''AVB''] empty_db) = Exits 0"
    "outcome_of (main_on_p3 corrupt_env [''AVB''] empty_db) = Exits 0"
    using C10_escaping_error_exits_zero [OF uri conn, of "[''AVB'']" empty_db]
      corrupt_run corrupt_run_p3 log
    by auto
  with corrupt_run show ?thesis
    by blast
qed

text \<open>
  The claim as stated fails for \<^verbatim>\<open>dbfToMongo.js\<close> when the error log cannot be written:
  the connection succeeds, the error of an archive that cannot be opened escapes the
  loop over the folders and is printed, the exit code is 0, and no line reaches the
  error log. In \<^verbatim>\<open>part_003\<close> the same error is printed and nothing is logged either.
\<close>

theorem C10_counterexample:
  "outcome_of (folder_loop readonly_corrupt_env [''AVB''] empty_db) = Throws ''bad header'' \<and>
   outcome_of (main_on readonly_corrupt_env [''AVB''] empty_db) = Exits 0 \<and>
   Console Error (ErrorMsg ''bad header'')
     \<in> set (effects_of (main_on readonly_corrupt_env [''AVB''] empty_db)) \<and>
   filter is_log_line (effects_of (main_on readonly_corrupt_env [''AVB''] empty_db)) = [] \<and>
   outcome_of (folder_loop_p3 corrupt_env [''AVB''] empty_db) = Throws ''bad header'' \<and>
   filter is_log_line (effects_of (main_on_p3 corrupt_env [''AVB''] empty_db)) = []"
  by (simp add: io_defs script_defs example_defs readonly_corrupt_env_def readonly_full_env_def
      plain_model_def)

text \<open>
  Claim C5, as the scripts have it. When the archive path does not exist,
  \<^verbatim>\<open>processFile\<close> looks at the path, prints the missing-archive warning and is done:
  it issues no operation on the destination (no delete, no insert), the destination is
  unchanged, no archive is opened, and no count is printed or returned (the function
  returns nothing). \<^verbatim>\<open>dbfToMongo.js\<close> also appends the warning to the error log, and
  raises the write error instead of returning when that write fails; \<^verbatim>\<open>part_003\<close> only
  prints.
\<close>

theorem C5_missing_archive_leaves_destination:
  assumes "\<not> fs_existsSync e filePath"
  shows "processFile e filePath m fileName folder db =
      (case appendFileSync_error e of
         None \<Rightarrow>
           (Returns (), db,
            [FsExists filePath, Console Warn (FileMissing fileName folder),
             LogLine (now e) (FileMissing fileName folder)])
       | Some err \<Rightarrow>
           (Throws err, db, [FsExists filePath, Console Warn (FileMissing fileName folder)])) \<and>
    processFile_p3 e filePath m fileName folder db =
      (Returns (), db, [FsExists filePath, Console Warn (FileMissing fileName folder)]) \<and>
    filter is_db_op (effects_of (processFile e filePath m fileName folder db)) = [] \<and>
    filter is_db_op (effects_of (processFile_p3 e filePath m fileName folder db)) = [] \<and>
    db_of (processFile e filePath m fileName folder db) = db \<and>
    db_of (processFile_p3 e filePath m fileName folder db) = db"
  using assms
  by (simp add: processFile_def processFile_p3_def io_defs effects_of_def db_of_def
      split: option.splits)

theorem C5_missing_archive_leaves_destination_witness:
  "processFile demo_env [''_dbf'', ''AVB'', ''classes.dbf''] (picky_model ''avb_classnums'')
     Classnum ''AVB'' empty_db =
     (Returns (), empty_db,
      [FsExists [''_dbf'', ''AVB'', ''classes.dbf''], Console Warn (FileMissing Classnum ''AVB''),
       LogLine 1000 (FileMissing Classnum ''AVB'')]) \<and>
   processFile_p3 demo_env [''_dbf'', ''AVB'', ''classes.dbf''] (picky_model ''avb_classnums'')
     Classnum ''AVB'' empty_db =
     (Returns (), empty_db,
      [FsExists [''_dbf'', ''AVB'', ''classes.dbf''], Console Warn (FileMissing Classnum ''AVB'')])"
proof -
  have "\<not> fs_existsSync demo_env [''_dbf'', ''AVB'', ''classes.dbf'']"
    by (simp add: demo_env_def)
  from C5_missing_archive_leaves_destination [OF this] show ?thesis
    by (simp add: demo_env_def)
qed

text \<open>
  The claim as stated fails: with an error log that cannot be written the load of a
  missing archive does not return at all, it raises; and when it returns, it returns
  no counts (the whole result is the warning).
\<close>

theorem C5_counterexample:
  "processFile readonly_env [''_dbf'', ''AVB'', ''classes.dbf''] (picky_model ''avb_classnums'')
     Classnum ''AVB'' empty_db =
     (Throws ''EACCES'', empty_db,
      [FsExists [''_dbf'', ''AVB'', ''classes.dbf''], Console Warn (FileMissing Classnum ''AVB'')])"
  by (simp add: processFile_def io_defs example_defs)

section \<open>Claims about the loops that write the records\<close>

lemma insert_records_returns_iff:
  "(\<exists>n. outcome_of (insert_records e m f recs k db) = Returns n) \<longleftrightarrow>
   (appendFileSync_error e = None \<or>
    rejections m (map sanitizeRecord recs) (db (collectionName m)) = [])"
proof (cases "appendFileSync_error e = None \<or>
    rejections m (map sanitizeRecord recs) (db (collectionName m)) = []")
  case True
  with insert_records_complete [where e = e and m = m and recs = recs and db = db and f = f and n = k]
  show ?thesis
    by (auto simp: outcome_of_def)
next
  case False
  then obtain x where "appendFileSync_error e = Some x"
    and "rejections m (map sanitizeRecord recs) (db (collectionName m)) \<noteq> []"
    by auto
  with insert_records_aborts [where e = e and m = m and recs = recs and db = db and f = f and n = k]
    False
  show ?thesis
    by (auto simp: outcome_of_def)
qed

text \<open>
  Claim C7. In the record loop of \<^verbatim>\<open>dbfToMongo.js\<close> and in the chunk loop of
  \<^verbatim>\<open>part_003\<close> (for any chunk size of at least 1), started with a count of 0 on the
  \<open>N\<close> records of an archive: the final count is at most \<open>N\<close>, it is \<open>N\<close> exactly when
  the destination rejects no record, and it never exceeds the number of documents the
  destination accepted (in \<^verbatim>\<open>dbfToMongo.js\<close> it is that number), which are the documents
  added to the collection. The chunk loop always yields a final count; the record loop
  does whenever its rejections can be logged.
\<close>

theorem C7_inserted_count_bounded:
  "(\<forall>n. outcome_of (insert_records e m fileName recs 0 db) = Returns n \<longrightarrow>
      n \<le> length recs \<and>
      (n = length recs \<longleftrightarrow>
         rejections m (map sanitizeRecord recs) (db (collectionName m)) = []) \<and>
      n = length (accepted m (map sanitizeRecord recs) (db (collectionName m))) \<and>
      db_of (insert_records e m fileName recs 0 db) (collectionName m) =
        db (collectionName m) @ accepted m (map sanitizeRecord recs) (db (collectionName m))) \<and>
   (appendFileSync_error e = None \<longrightarrow>
      (\<exists>n. outcome_of (insert_records e m fileName recs 0 db) = Returns n)) \<and>
   (0 < chunk \<longrightarrow>
      (\<exists>n. outcome_of (insert_batches chunk m recs 0 0 db) = Returns n \<and>
         n \<le> length recs \<and>
         (n = length recs \<longleftrightarrow>
            rejections m (map sanitizeRecord_fromEntries recs) (db (collectionName m)) = []) \<and>
         n \<le> length (accepted m (map sanitizeRecord_fromEntries recs) (db (collectionName m))) \<and>
         db_of (insert_batches chunk m recs 0 0 db) (collectionName m) =
           db (collectionName m) @
           accepted m (map sanitizeRecord_fromEntries recs) (db (collectionName m))))"
proof (intro conjI allI impI)
  fix n
  assume ret: "outcome_of (insert_records e m fileName recs 0 db) = Returns n"
  then have "appendFileSync_error e = None \<or>
      rejections m (map sanitizeRecord recs) (db (collectionName m)) = []"
    using insert_records_returns_iff [of e m fileName recs 0 db] by blast
  with insert_records_complete
    [where e = e and m = m and recs = recs and db = db and f = fileName and n = 0]
  obtain tr where
    run: "insert_records e m fileName recs 0 db =
       (Returns (length (accepted m (map sanitizeRecord recs) (db (collectionName m)))),
        db(collectionName m := written m (map sanitizeRecord recs) (db (collectionName m))),
        tr)"
    by auto
  with ret show n: "n = length (accepted m (map sanitizeRecord recs) (db (collectionName m)))"
    by (simp add: outcome_of_def)
  have len: "length (accepted m (map sanitizeRecord recs) (db (collectionName m))) +
      length (rejections m (map sanitizeRecord recs) (db (collectionName m))) = length recs"
    using length_accepted_rejections [of m "map sanitizeRecord recs" "db (collectionName m)"]
    by simp
  from n len show "n \<le> length recs" by simp
  from n len show "n = length recs \<longleftrightarrow>
      rejections m (map sanitizeRecord recs) (db (collectionName m)) = []"
    by auto
  from run show "db_of (insert_records e m fileName recs 0 db) (collectionName m) =
      db (collectionName m) @ accepted m (map sanitizeRecord recs) (db (collectionName m))"
    by (simp add: db_of_def written_accepted)
next
  assume "appendFileSync_error e = None"
  then show "\<exists>n. outcome_of (insert_records e m fileName recs 0 db) = Returns n"
    using insert_records_returns_iff [of e m fileName recs 0 db] by blast
next
  assume "0 < chunk"
  from insert_batches_complete [OF this, of m recs 0 0 db] obtain n tr where
    run: "insert_batches chunk m recs 0 0 db =
       (Returns n,
        db(collectionName m :=
             written m (map sanitizeRecord_fromEntries recs) (db (collectionName m))),
        tr)"
    and hi: "n \<le> length (accepted m (map sanitizeRecord_fromEntries recs) (db (collectionName m)))"
    and full: "n = length recs \<longleftrightarrow>
       rejections m (map sanitizeRecord_fromEntries recs) (db (collectionName m)) = []"
    by auto
  have "length (accepted m (map sanitizeRecord_fromEntries recs) (db (collectionName m)))
      \<le> length recs"
    using length_accepted_rejections
      [of m "map sanitizeRecord_fromEntries recs" "db (collectionName m)"]
    by simp
  with hi have "n \<le> length recs" by simp
  with run hi full
  show "\<exists>n. outcome_of (insert_batches chunk m recs 0 0 db) = Returns n \<and>
         n \<le> length recs \<and>
         (n = length recs \<longleftrightarrow>
            rejections m (map sanitizeRecord_fromEntries recs) (db (collectionName m)) = []) \<and>
         n \<le> length (accepted m (map sanitizeRecord_fromEntries recs) (db (collectionName m))) \<and>
         db_of (insert_batches chunk m recs 0 0 db) (collectionName m) =
           db (collectionName m) @
           accepted m (map sanitizeRecord_fromEntries recs) (db (collectionName m))"
    by (simp add: outcome_of_def db_of_def written_accepted)
qed



lemmas observing_defs = written_def accepted_def rejections_def load_all_at_once_def

lemma demo_record_loop:
  "insert_records demo_env (picky_model ''c'') Article [rec1, rec_bad, rec2] 0 empty_db =
     (Returns 2,
      empty_db(''c'' := [[(''NART'', VString ''A1''), (''PRIX'', VNumber (Finite 0))], rec2]),
      [DbCreate ''c'' [(''NART'', VString ''A1''), (''PRIX'', VNumber (Finite 0))],
       DbCreate ''c'' rec_bad,
       Console Error (InsertError Article ''validation failed''),
       LogLine 1000 (InsertError Article ''validation failed''),
       DbCreate ''c'' rec2])"
  by (simp add: io_defs example_defs sanitizeRecord_def sanitizeValue_def)

lemma demo_chunk_loop:
  "insert_batches 2 (picky_model ''c'') [rec1, rec_bad, rec2] 0 0 empty_db =
     (Returns 1,
      empty_db(''c'' := [[(''NART'', VString ''A1''), (''PRIX'', VNumber (Finite 0))], rec2]),
      [DbInsertMany ''c''
         [[(''NART'', VString ''A1''), (''PRIX'', VNumber (Finite 0))], rec_bad] False,
       Console Error (InsertErrorPlain ''validation failed''),
       DbInsertMany ''c'' [rec2] False])"
  by (simp add: insert_batches.simps slice_def io_defs example_defs
      sanitizeRecord_fromEntries_def fromEntries_def sanitizeValue_def)

lemma demo_rejections:
  "rejections (picky_model ''c'') (map sanitizeRecord [rec1, rec_bad, rec2]) (empty_db ''c'') =
     [''validation failed'']"
  "rejections (picky_model ''c'') (map sanitizeRecord_fromEntries [rec1, rec_bad, rec2])
     (empty_db ''c'') = [''validation failed'']"
  "accepted (picky_model ''c'') (map sanitizeRecord [rec1, rec_bad, rec2]) (empty_db ''c'') =
     [[(''NART'', VString ''A1''), (''PRIX'', VNumber (Finite 0))], rec2]"
  by (simp_all add: observing_defs example_defs sanitizeRecord_def sanitizeRecord_fromEntries_def
      fromEntries_def sanitizeValue_def)

theorem C7_inserted_count_bounded_witness:
  "outcome_of (insert_records demo_env (picky_model ''c'') Article [rec1, rec_bad, rec2] 0 empty_db)
     = Returns 2 \<and>
   (2::nat) \<le> length [rec1, rec_bad, rec2] \<and>
   (2::nat) \<noteq> length [rec1, rec_bad, rec2] \<and>
   rejections (picky_model ''c'') (map sanitizeRecord [rec1, rec_bad, rec2]) (empty_db ''c'') \<noteq> [] \<and>
   length (accepted (picky_model ''c'') (map sanitizeRecord [rec1, rec_bad, rec2]) (empty_db ''c''))
     = 2 \<and>
   outcome_of (insert_batches 2 (picky_model ''c'') [rec1, rec_bad, rec2] 0 0 empty_db) = Returns 1"
  using C7_inserted_count_bounded
    [where e = demo_env and m = "picky_model ''c''" and fileName = Article
       and recs = "[rec1, rec_bad, rec2]" and db = empty_db and chunk = 2]
    demo_record_loop demo_chunk_loop demo_rejections
  by (simp add: outcome_of_def)


text \<open>
  Claim C6, as the scripts have it. For every chunk size of at least 1 the chunk loop of
  \<^verbatim>\<open>part_003\<close> leaves the destination exactly as one unordered write of all the
  sanitized records does; so a chunk size of 1 and the script's 1000 give the same
  destination. When its writes to the error log succeed, the record loop of
  \<^verbatim>\<open>dbfToMongo.js\<close> leaves the destination as one unordered write of all the records,
  sanitized, does, and on the records of an archive (objects) that is the destination
  the chunk loop with the script's 1000 leaves.
\<close>

theorem C6_chunk_size_is_immaterial:
  "(0 < chunk \<longrightarrow>
      db_of (insert_batches chunk m recs 0 0 db) = db_of (load_all_at_once m recs db)) \<and>
   db_of (insert_batches 1 m recs 0 0 db) = db_of (insert_batches batchSize m recs 0 0 db) \<and>
   (appendFileSync_error e = None \<longrightarrow>
      db_of (insert_records e m fileName recs 0 db) =
      db_of (insertMany_unordered m (map sanitizeRecord recs) db)) \<and>
   (appendFileSync_error e = None \<and> (\<forall>r \<in> set recs. is_object r) \<longrightarrow>
      db_of (insert_records e m fileName recs 0 db) =
      db_of (insert_batches batchSize m recs 0 0 db))"
proof -
  have batches: "db_of (insert_batches c m recs 0 0 db) =
      db(collectionName m :=
           written m (map sanitizeRecord_fromEntries recs) (db (collectionName m)))"
    if "0 < c" for c
    using insert_batches_complete [OF that, of m recs 0 0 db] by (auto simp: db_of_def)
  have all: "db_of (load_all_at_once m recs db) =
      db(collectionName m :=
           written m (map sanitizeRecord_fromEntries recs) (db (collectionName m)))"
    by (simp add: db_of_def load_all_at_once_def insertMany_unordered_def written_def
        split: prod.splits)
  have own: "db_of (insert_records e m fileName recs 0 db) =
      db(collectionName m := written m (map sanitizeRecord recs) (db (collectionName m)))"
    if w: "appendFileSync_error e = None"
    using w
      insert_records_complete
        [where e = e and m = m and recs = recs and db = db and f = fileName and n = 0]
    by (auto simp: db_of_def)
  have once: "db_of (insertMany_unordered m (map sanitizeRecord recs) db) =
      db(collectionName m := written m (map sanitizeRecord recs) (db (collectionName m)))"
    by (simp add: db_of_def insertMany_unordered_def written_def split: prod.splits)
  have records: "db_of (insert_records e m fileName recs 0 db) =
      db(collectionName m :=
           written m (map sanitizeRecord_fromEntries recs) (db (collectionName m)))"
    if w: "appendFileSync_error e = None" and d: "\<forall>r \<in> set recs. is_object r"
  proof -
    from d have eq: "map sanitizeRecord_fromEntries recs = map sanitizeRecord recs"
      by (simp add: is_object_def own_keys_def sanitizers_agree)
    from own [OF w] show ?thesis
      unfolding eq .
  qed
  show ?thesis
    using batches [of chunk] batches [of 1] batches [of batchSize] all records own once
    by (simp add: batchSize_def)
qed

theorem C6_chunk_size_is_immaterial_witness:
  "db_of (insert_batches 2 (picky_model ''c'') [rec1, rec_bad, rec2] 0 0 empty_db) =
     db_of (load_all_at_once (picky_model ''c'') [rec1, rec_bad, rec2] empty_db) \<and>
   db_of (insert_batches 2 (picky_model ''c'') [rec1, rec_bad, rec2] 0 0 empty_db) ''c'' =
     [[(''NART'', VString ''A1''), (''PRIX'', VNumber (Finite 0))], rec2] \<and>
   appendFileSync_error demo_env = None \<and>
   is_object rec1 \<and> is_object rec_bad \<and> is_object rec2 \<and>
   db_of (insert_records demo_env (picky_model ''c'') Article [rec1, rec_bad, rec2] 0 empty_db) =
     db_of (insert_batches batchSize (picky_model ''c'') [rec1, rec_bad, rec2] 0 0 empty_db)"
proof -
  have hyp: "appendFileSync_error demo_env = None"
    "is_object rec1" "is_object rec_bad" "is_object rec2"
    by (simp_all add: demo_env_def is_object_def own_keys_def rec1_def rec_bad_def rec2_def)
  note inst = C6_chunk_size_is_immaterial
      [where chunk = 2 and m = "picky_model ''c''" and recs = "[rec1, rec_bad, rec2]"
         and db = empty_db and e = demo_env and fileName = Article]
  have a: "db_of (insert_batches 2 (picky_model ''c'') [rec1, rec_bad, rec2] 0 0 empty_db) =
     db_of (load_all_at_once (picky_model ''c'') [rec1, rec_bad, rec2] empty_db)"
    using inst by simp
  have b: "db_of (insert_batches 2 (picky_model ''c'') [rec1, rec_bad, rec2] 0 0 empty_db) ''c'' =
     [[(''NART'', VString ''A1''), (''PRIX'', VNumber (Finite 0))], rec2]"
    using demo_chunk_loop by (simp add: db_of_def)
  have c: "db_of (insert_records demo_env (picky_model ''c'') Article [rec1, rec_bad, rec2] 0 empty_db) =
     db_of (insert_batches batchSize (picky_model ''c'') [rec1, rec_bad, rec2] 0 0 empty_db)"
    using inst [THEN conjunct2, THEN conjunct2, THEN conjunct2] hyp
    by (simp del: insert_records.simps)
  show ?thesis
    by (intro conjI a b c hyp)
qed

text \<open>
  The claim as stated fails between the record loop of \<^verbatim>\<open>dbfToMongo.js\<close> and the chunk
  loop of \<^verbatim>\<open>part_003\<close>: when the error log cannot be written, the record loop stops at
  the first rejected record, and a later record that the destination would accept is
  written by the chunk loop only.
\<close>

theorem C6_counterexample:
  "db_of (insert_records readonly_env (picky_model ''c'') Article [rec_bad, rec2] 0 empty_db) ''c''
     = [] \<and>
   db_of (insert_batches batchSize (picky_model ''c'') [rec_bad, rec2] 0 0 empty_db) ''c''
     = [rec2]"
  by (simp add: insert_batches.simps slice_def batchSize_def io_defs example_defs
      sanitizeRecord_def sanitizeRecord_fromEntries_def fromEntries_def sanitizeValue_def)

text \<open>
  Claim C1, as the scripts have it. In the chunk loop of \<^verbatim>\<open>part_003\<close> (any chunk size of
  at least 1) a write failure is caught and printed: the loop always returns, every
  record of every chunk is handed to the destination, the destination ends as one
  attempt of all the records leaves it, the count does not exceed the number of
  accepted records, and an error is printed exactly when some record was rejected. In
  the record loop of \<^verbatim>\<open>dbfToMongo.js\<close>, when the error log can be written, the loop
  returns, every record is attempted, each rejection is printed and logged once, and
  the count is the number of accepted records. In \<^verbatim>\<open>part_002\<close> nothing catches a write
  failure: the chunk loop writes the records up to the first rejected one and raises its
  error; an error that escapes the loop over the folders ends the run with exit code 1;
  and so a run whose connection succeeded ends with exit code 1 as soon as a folder is
  reached whose archive is read and holds a record that the destination rejects.
\<close>

theorem C1_write_failure_is_contained:
  "(0 < chunk \<longrightarrow>
      (\<exists>n tr.
         insert_batches chunk m recs 0 0 db =
           (Returns n,
            db(collectionName m :=
                 written m (map sanitizeRecord_fromEntries recs) (db (collectionName m))),
            tr) \<and>
         n \<le> length (accepted m (map sanitizeRecord_fromEntries recs) (db (collectionName m))) \<and>
         concat (map attempted tr) = map sanitizeRecord_fromEntries recs \<and>
         set (filter is_console tr) \<subseteq>
           (\<lambda>err. Console Error (InsertErrorPlain err)) `
             set (rejections m (map sanitizeRecord_fromEntries recs) (db (collectionName m))) \<and>
         (filter is_console tr = [] \<longleftrightarrow>
            rejections m (map sanitizeRecord_fromEntries recs) (db (collectionName m)) = []))) \<and>
   (appendFileSync_error e = None \<longrightarrow>
      (\<exists>tr.
         insert_records e m fileName recs 0 db =
           (Returns (length (accepted m (map sanitizeRecord recs) (db (collectionName m)))),
            db(collectionName m := written m (map sanitizeRecord recs) (db (collectionName m))),
            tr) \<and>
         concat (map attempted tr) = map sanitizeRecord recs \<and>
         filter is_log_line tr =
           map (\<lambda>err. LogLine (now e) (InsertError fileName err))
             (rejections m (map sanitizeRecord recs) (db (collectionName m))) \<and>
         filter is_console tr =
           map (\<lambda>err. Console Error (InsertError fileName err))
             (rejections m (map sanitizeRecord recs) (db (collectionName m))))) \<and>
   (0 < chunk \<longrightarrow>
      outcome_of (insert_batches_p2 chunk m recs 0 0 db) =
        (case snd (insert_ordered m (map sanitizeRecord_fromEntries recs) (db (collectionName m))) of
           None \<Rightarrow> Returns (length recs)
         | Some err \<Rightarrow> Throws err) \<and>
      db_of (insert_batches_p2 chunk m recs 0 0 db) =
        db(collectionName m :=
             fst (insert_ordered m (map sanitizeRecord_fromEntries recs) (db (collectionName m))))) \<and>
   (\<not> falsy (mongoUri e) \<and> mongoose_connect e (uri_string (mongoUri e)) = None \<longrightarrow>
      (\<forall>err. outcome_of (folder_loop_p2 e fs db) = Throws err \<longrightarrow>
         outcome_of (main_on_p2 e fs db) = Exits 1 \<and>
         Console Error (ErrorMsg err) \<in> set (effects_of (main_on_p2 e fs db)))) \<and>
   (\<not> falsy (mongoUri e) \<and> mongoose_connect e (uri_string (mongoUri e)) = None \<and>
    outcome_of (folder_loop_p2 e pre db) = Returns () \<and>
    fs_existsSync e (DBF_FOLDER @ [folder]) \<and>
    import_default e (modelPath folder Article) = Inr (Some m) \<and>
    fs_existsSync e (DBF_FOLDER @ [folder, ''article.dbf'']) \<and>
    DBFFile_open e (DBF_FOLDER @ [folder, ''article.dbf'']) = Inr dbf \<and>
    deleteMany_error m = None \<and>
    readRecords_result dbf = Inr recs \<and>
    snd (insert_ordered m (map sanitizeRecord_fromEntries recs) []) = Some err \<longrightarrow>
      outcome_of (main_on_p2 e (pre @ folder # post) db) = Exits 1)"
proof (intro conjI impI)
  assume "0 < chunk"
  from insert_batches_complete [OF this, of m recs 0 0 db]
  show "\<exists>n tr.
         insert_batches chunk m recs 0 0 db =
           (Returns n,
            db(collectionName m :=
                 written m (map sanitizeRecord_fromEntries recs) (db (collectionName m))),
            tr) \<and>
         n \<le> length (accepted m (map sanitizeRecord_fromEntries recs) (db (collectionName m))) \<and>
         concat (map attempted tr) = map sanitizeRecord_fromEntries recs \<and>
         set (filter is_console tr) \<subseteq>
           (\<lambda>err. Console Error (InsertErrorPlain err)) `
             set (rejections m (map sanitizeRecord_fromEntries recs) (db (collectionName m))) \<and>
         (filter is_console tr = [] \<longleftrightarrow>
            rejections m (map sanitizeRecord_fromEntries recs) (db (collectionName m)) = [])"
    by simp blast
next
  assume "appendFileSync_error e = None"
  with insert_records_complete
    [where e = e and m = m and recs = recs and db = db and f = fileName and n = 0]
  show "\<exists>tr.
         insert_records e m fileName recs 0 db =
           (Returns (length (accepted m (map sanitizeRecord recs) (db (collectionName m)))),
            db(collectionName m := written m (map sanitizeRecord recs) (db (collectionName m))),
            tr) \<and>
         concat (map attempted tr) = map sanitizeRecord recs \<and>
         filter is_log_line tr =
           map (\<lambda>err. LogLine (now e) (InsertError fileName err))
             (rejections m (map sanitizeRecord recs) (db (collectionName m))) \<and>
         filter is_console tr =
           map (\<lambda>err. Console Error (InsertError fileName err))
             (rejections m (map sanitizeRecord recs) (db (collectionName m)))"
    by simp
next
  assume pos: "0 < chunk"
  from insert_batches_p2_result [OF pos, of m recs 0 0 db]
  show "outcome_of (insert_batches_p2 chunk m recs 0 0 db) =
        (case snd (insert_ordered m (map sanitizeRecord_fromEntries recs) (db (collectionName m))) of
           None \<Rightarrow> Returns (length recs)
         | Some err \<Rightarrow> Throws err)"
    and "db_of (insert_batches_p2 chunk m recs 0 0 db) =
        db(collectionName m :=
             fst (insert_ordered m (map sanitizeRecord_fromEntries recs) (db (collectionName m))))"
    by (auto simp: outcome_of_def db_of_def split: option.splits)
next
  assume "\<not> falsy (mongoUri e) \<and> mongoose_connect e (uri_string (mongoUri e)) = None"
  then show "\<forall>err. outcome_of (folder_loop_p2 e fs db) = Throws err \<longrightarrow>
         outcome_of (main_on_p2 e fs db) = Exits 1 \<and>
         Console Error (ErrorMsg err) \<in> set (effects_of (main_on_p2 e fs db))"
    using main_on_p2_throw_exits_one [of e fs db] by blast
next
  assume h: "\<not> falsy (mongoUri e) \<and> mongoose_connect e (uri_string (mongoUri e)) = None \<and>
    outcome_of (folder_loop_p2 e pre db) = Returns () \<and>
    fs_existsSync e (DBF_FOLDER @ [folder]) \<and>
    import_default e (modelPath folder Article) = Inr (Some m) \<and>
    fs_existsSync e (DBF_FOLDER @ [folder, ''article.dbf'']) \<and>
    DBFFile_open e (DBF_FOLDER @ [folder, ''article.dbf'']) = Inr dbf \<and>
    deleteMany_error m = None \<and>
    readRecords_result dbf = Inr recs \<and>
    snd (insert_ordered m (map sanitizeRecord_fromEntries recs) []) = Some err"
  then have "outcome_of (process_folder_p2 e folder db') = Throws err" for db'
    using process_folder_p2_write_failure [of e folder m dbf recs err db'] by blast
  with h have "outcome_of (folder_loop_p2 e (pre @ folder # post) db) = Throws err"
    using folder_loop_p2_write_failure [of e pre db folder err post] by blast
  with h show "outcome_of (main_on_p2 e (pre @ folder # post) db) = Exits 1"
    using main_on_p2_throw_exits_one(1) [of e "pre @ folder # post" db err] by blast
qed

lemma demo_article_archive:
  "fs_existsSync demo_env (DBF_FOLDER @ [''AVB''])"
  "import_default demo_env (modelPath ''AVB'' Article) = Inr (Some (picky_model ''avb_articles''))"
  "fs_existsSync demo_env (DBF_FOLDER @ [''AVB'', ''article.dbf''])"
  "DBFFile_open demo_env (DBF_FOLDER @ [''AVB'', ''article.dbf'']) =
     Inr \<lparr>recordCount = 3, readRecords_result = Inr [rec1, rec_bad, rec2]\<rparr>"
  "deleteMany_error (picky_model ''avb_articles'') = None"
  "readRecords_result \<lparr>recordCount = 3, readRecords_result = Inr [rec1, rec_bad, rec2]\<rparr> =
     Inr [rec1, rec_bad, rec2]"
  "snd (insert_ordered (picky_model ''avb_articles'')
          (map sanitizeRecord_fromEntries [rec1, rec_bad, rec2]) []) = Some ''validation failed''"
  "\<not> falsy (mongoUri demo_env)"
  "mongoose_connect demo_env (uri_string (mongoUri demo_env)) = None"
  "outcome_of (folder_loop_p2 demo_env [] empty_db) = Returns ()"
  by (simp_all add: script_defs example_defs io_return_def sanitizeRecord_fromEntries_def
      fromEntries_def sanitizeValue_def)

theorem C1_write_failure_is_contained_witness:
  "appendFileSync_error demo_env = None \<and>
   insert_records demo_env (picky_model ''c'') Article [rec1, rec_bad, rec2] 0 empty_db =
     (Returns 2,
      empty_db(''c'' := [[(''NART'', VString ''A1''), (''PRIX'', VNumber (Finite 0))], rec2]),
      [DbCreate ''c'' [(''NART'', VString ''A1''), (''PRIX'', VNumber (Finite 0))],
       DbCreate ''c'' rec_bad,
       Console Error (InsertError Article ''validation failed''),
       LogLine 1000 (InsertError Article ''validation failed''),
       DbCreate ''c'' rec2]) \<and>
   insert_batches 2 (picky_model ''c'') [rec1, rec_bad, rec2] 0 0 empty_db =
     (Returns 1,
      empty_db(''c'' := [[(''NART'', VString ''A1''), (''PRIX'', VNumber (Finite 0))], rec2]),
      [DbInsertMany ''c''
         [[(''NART'', VString ''A1''), (''PRIX'', VNumber (Finite 0))], rec_bad] False,
       Console Error (InsertErrorPlain ''validation failed''),
       DbInsertMany ''c'' [rec2] False]) \<and>
   fs_existsSync demo_env (DBF_FOLDER @ [''AVB'']) \<and>
   import_default demo_env (modelPath ''AVB'' Article) = Inr (Some (picky_model ''avb_articles'')) \<and>
   fs_existsSync demo_env (DBF_FOLDER @ [''AVB'', ''article.dbf'']) \<and>
   DBFFile_open demo_env (DBF_FOLDER @ [''AVB'', ''article.dbf'']) =
     Inr \<lparr>recordCount = 3, readRecords_result = Inr [rec1, rec_bad, rec2]\<rparr> \<and>
   snd (insert_ordered (picky_model ''avb_articles'')
          (map sanitizeRecord_fromEntries [rec1, rec_bad, rec2]) []) = Some ''validation failed'' \<and>
   outcome_of (insert_batches_p2 2 (picky_model ''avb_articles'') [rec1, rec_bad, rec2] 0 0 empty_db)
     = Throws ''validation failed'' \<and>
   outcome_of (main_on_p2 demo_env [''AVB''] empty_db) = Exits 1"
proof -
  have w: "appendFileSync_error demo_env = None"
    by (simp add: demo_env_def)
  note inst = C1_write_failure_is_contained
      [where chunk = 2 and m = "picky_model ''avb_articles''" and recs = "[rec1, rec_bad, rec2]"
         and db = empty_db and e = demo_env and pre = "[]" and folder = "''AVB''"
         and post = "[]" and err = "''validation failed''"
         and dbf = "\<lparr>recordCount = 3, readRecords_result = Inr [rec1, rec_bad, rec2]\<rparr>"]
  have run: "outcome_of (main_on_p2 demo_env [''AVB''] empty_db) = Exits 1"
    using inst [THEN conjunct2, THEN conjunct2, THEN conjunct2, THEN conjunct2]
      demo_article_archive
    by simp
  have loop: "outcome_of
       (insert_batches_p2 2 (picky_model ''avb_articles'') [rec1, rec_bad, rec2] 0 0 empty_db)
     = Throws ''validation failed''"
    using inst [THEN conjunct2, THEN conjunct2, THEN conjunct1] demo_article_archive(7)
    by (simp add: empty_db_def picky_model_def)
  show ?thesis
    by (intro conjI w demo_record_loop demo_chunk_loop demo_article_archive(1-4)
        demo_article_archive(7) loop run)
qed

text \<open>
  The claim as stated fails. In \<^verbatim>\<open>part_002\<close> a rejected record of a chunk ends the run
  with exit code 1, and the record after it is never written. In \<^verbatim>\<open>dbfToMongo.js\<close>,
  with an error log that cannot be written, the rejection of one record ends the load.
\<close>

theorem C1_counterexample:
  "outcome_of (main_on_p2 demo_env [''AVB''] empty_db) = Exits 1 \<and>
   db_of (main_on_p2 demo_env [''AVB''] empty_db) ''avb_articles'' =
     [[(''NART'', VString ''A1''), (''PRIX'', VNumber (Finite 0))]] \<and>
   outcome_of (insert_records readonly_env (picky_model ''c'') Article [rec_bad, rec2] 0 empty_db)
     = Throws ''EACCES'' \<and>
   db_of (insert_records readonly_env (picky_model ''c'') Article [rec_bad, rec2] 0 empty_db) ''c''
     = []"
  by (simp add: insert_batches_p2.simps slice_def batchSize_def io_defs script_defs example_defs
      sanitizeRecord_def sanitizeRecord_fromEntries_def fromEntries_def sanitizeValue_def)

section \<open>A folder that does not exist\<close>

lemma process_folder_missing:
  assumes "\<not> fs_existsSync e (DBF_FOLDER @ [s])"
  shows "process_folder e s db =
     (case appendFileSync_error e of
        None \<Rightarrow> (Returns (), db, missing_folder_effects e s)
      | Some err \<Rightarrow> (Throws err, db, missing_folder_effects_p3 s))"
    and "process_folder_p3 e s db = (Returns (), db, missing_folder_effects_p3 s)"
  using assms
  by (simp_all add: process_folder_def process_folder_p3_def io_defs missing_folder_effects_def
      missing_folder_effects_p3_def split: option.splits)

text \<open>
  Two runs are the same up to the effects \<open>skip\<close> when they have the same outcome and
  leave the same destination, and the effects of the first are those of the second with
  \<open>skip\<close> put in at one place (or not at all, when the run ended before that place).
\<close>

lemma folder_loop_skips:
  assumes "\<And>db. process_folder e s db = (Returns (), db, skip)"
  shows "\<exists>r db' a b.
     folder_loop e (pre @ post) db = (r, db', a @ b) \<and>
     (folder_loop e (pre @ s # post) db = (r, db', a @ skip @ b) \<or>
      folder_loop e (pre @ s # post) db = (r, db', a @ b))"
proof (induction pre arbitrary: db)
  case Nil
  obtain r db' b where "folder_loop e post db = (r, db', b)"
    by (cases "folder_loop e post db") auto
  then have "folder_loop e ([] @ post) db = (r, db', [] @ b)"
    and "folder_loop e ([] @ s # post) db = (r, db', [] @ skip @ b)"
    by (simp_all add: io_bind_def assms)
  then show ?case by blast
next
  case (Cons f pre)
  obtain r1 db1 tr1 where first: "process_folder e f db = (r1, db1, tr1)"
    by (cases "process_folder e f db") auto
  show ?case
  proof (cases r1)
    case (Returns u)
    from Cons.IH [of db1] obtain r db' a b where
      plain: "folder_loop e (pre @ post) db1 = (r, db', a @ b)"
      and skipped: "folder_loop e (pre @ s # post) db1 = (r, db', a @ skip @ b) \<or>
        folder_loop e (pre @ s # post) db1 = (r, db', a @ b)"
      by blast
    from plain first Returns
    have "folder_loop e ((f # pre) @ post) db = (r, db', (tr1 @ a) @ b)"
      by (simp add: io_bind_def)
    moreover from skipped first Returns
    have "folder_loop e ((f # pre) @ s # post) db = (r, db', (tr1 @ a) @ skip @ b) \<or>
        folder_loop e ((f # pre) @ s # post) db = (r, db', (tr1 @ a) @ b)"
      by (auto simp: io_bind_def)
    ultimately show ?thesis by blast
  next
    case (Throws err)
    with first have "folder_loop e ((f # pre) @ post) db = (r1, db1, tr1 @ [])"
      and "folder_loop e ((f # pre) @ s # post) db = (r1, db1, tr1 @ [])"
      by (simp_all add: io_bind_def)
    then show ?thesis by blast
  next
    case (Exits c)
    with first have "folder_loop e ((f # pre) @ post) db = (r1, db1, tr1 @ [])"
      and "folder_loop e ((f # pre) @ s # post) db = (r1, db1, tr1 @ [])"
      by (simp_all add: io_bind_def)
    then show ?thesis by blast
  qed
qed

lemma folder_loop_p3_skips:
  assumes "\<And>db. process_folder_p3 e s db = (Returns (), db, skip)"
  shows "\<exists>r db' a b.
     folder_loop_p3 e (pre @ post) db = (r, db', a @ b) \<and>
     (folder_loop_p3 e (pre @ s # post) db = (r, db', a @ skip @ b) \<or>
      folder_loop_p3 e (pre @ s # post) db = (r, db', a @ b))"
proof (induction pre arbitrary: db)
  case Nil
  obtain r db' b where "folder_loop_p3 e post db = (r, db', b)"
    by (cases "folder_loop_p3 e post db") auto
  then have "folder_loop_p3 e ([] @ post) db = (r, db', [] @ b)"
    and "folder_loop_p3 e ([] @ s # post) db = (r, db', [] @ skip @ b)"
    by (simp_all add: io_bind_def assms)
  then show ?case by blast
next
  case (Cons f pre)
  obtain r1 db1 tr1 where first: "process_folder_p3 e f db = (r1, db1, tr1)"
    by (cases "process_folder_p3 e f db") auto
  show ?case
  proof (cases r1)
    case (Returns u)
    from Cons.IH [of db1] obtain r db' a b where
      plain: "folder_loop_p3 e (pre @ post) db1 = (r, db', a @ b)"
      and skipped: "folder_loop_p3 e (pre @ s # post) db1 = (r, db', a @ skip @ b) \<or>
        folder_loop_p3 e (pre @ s # post) db1 = (r, db', a @ b)"
      by blast
    from plain first Returns
    have "folder_loop_p3 e ((f # pre) @ post) db = (r, db', (tr1 @ a) @ b)"
      by (simp add: io_bind_def)
    moreover from skipped first Returns
    have "folder_loop_p3 e ((f # pre) @ s # post) db = (r, db', (tr1 @ a) @ skip @ b) \<or>
        folder_loop_p3 e ((f # pre) @ s # post) db = (r, db', (tr1 @ a) @ b)"
      by (auto simp: io_bind_def)
    ultimately show ?thesis by blast
  next
    case (Throws err)
    with first have "folder_loop_p3 e ((f # pre) @ post) db = (r1, db1, tr1 @ [])"
      and "folder_loop_p3 e ((f # pre) @ s # post) db = (r1, db1, tr1 @ [])"
      by (simp_all add: io_bind_def)
    then show ?thesis by blast
  next
    case (Exits c)
    with first have "folder_loop_p3 e ((f # pre) @ post) db = (r1, db1, tr1 @ [])"
      and "folder_loop_p3 e ((f # pre) @ s # post) db = (r1, db1, tr1 @ [])"
      by (simp_all add: io_bind_def)
    then show ?thesis by blast
  qed
qed

text \<open>The whole run, in terms of what the loop over the folders does.\<close>

lemma main_on_skips:
  assumes "\<And>db. process_folder e s db = (Returns (), db, skip)"
  shows "\<exists>r db' a b.
     main_on e (pre @ post) db = (r, db', a @ b) \<and>
     (main_on e (pre @ s # post) db = (r, db', a @ skip @ b) \<or>
      main_on e (pre @ s # post) db = (r, db', a @ b))"
proof (cases "falsy (mongoUri e)")
  case True
  then have "main_on e (pre @ post) db = (Exits 1, db, [Console Error UriUndefined] @ [])"
    and "main_on e (pre @ s # post) db = (Exits 1, db, [Console Error UriUndefined] @ [])"
    by (simp_all add: main_on_def io_bind_def console_def process_exit_def)
  then show ?thesis by blast
next
  case False
  show ?thesis
  proof (cases "mongoose_connect e (uri_string (mongoUri e))")
    case (Some err)
    from importDbfsData_on_not_connected(1) [OF this] False
    have "main_on e (pre @ post) db = main_on e (pre @ s # post) db"
      by (simp add: main_on_def)
    moreover obtain r db' a where "main_on e (pre @ post) db = (r, db', a @ [])"
      by (cases "main_on e (pre @ post) db") auto
    ultimately show ?thesis by metis
  next
    case None
    let ?c = "[Console Log Connecting, MongoConnect (uri_string (mongoUri e)), Console Log Connected]"
    from folder_loop_skips [of e s skip pre post db, OF assms] obtain r db' a b where
      plain: "folder_loop e (pre @ post) db = (r, db', a @ b)"
      and skipped: "folder_loop e (pre @ s # post) db = (r, db', a @ skip @ b) \<or>
        folder_loop e (pre @ s # post) db = (r, db', a @ b)"
      by blast
    obtain r' :: "unit outcome" and tail where tail: "\<And>tr. (case (r, db', tr) of
        (Returns u, db1, tr1) \<Rightarrow>
          (Exits 0, db1, ?c @ tr1 @ [Console Log AllDone, Console Log TotalElapsed])
      | (Throws err, db1, tr1) \<Rightarrow>
          (Exits 0, db1,
           ?c @ tr1 @ Console Error (ErrorMsg err) #
             (case appendFileSync_error e of
                None \<Rightarrow> [LogLine (now e) (Critical err)]
              | Some x \<Rightarrow> []))
      | (Exits c, db1, tr1) \<Rightarrow> (Exits c, db1, ?c @ tr1)) = (r', db', ?c @ tr @ tail)"
      by (cases r) auto
    from plain have "main_on e (pre @ post) db = (r', db', (?c @ a) @ (b @ tail))"
      using False tail [of "a @ b"]
      by (simp add: main_on_def importDbfsData_on_connected [OF None])
    moreover from skipped
    have "main_on e (pre @ s # post) db = (r', db', (?c @ a) @ skip @ (b @ tail)) \<or>
        main_on e (pre @ s # post) db = (r', db', (?c @ a) @ (b @ tail))"
      using False tail [of "a @ skip @ b"] tail [of "a @ b"]
      by (auto simp: main_on_def importDbfsData_on_connected [OF None])
    ultimately show ?thesis by blast
  qed
qed

lemma main_on_p3_skips:
  assumes "\<And>db. process_folder_p3 e s db = (Returns (), db, skip)"
  shows "\<exists>r db' a b.
     main_on_p3 e (pre @ post) db = (r, db', a @ b) \<and>
     (main_on_p3 e (pre @ s # post) db = (r, db', a @ skip @ b) \<or>
      main_on_p3 e (pre @ s # post) db = (r, db', a @ b))"
proof (cases "falsy (mongoUri e)")
  case True
  then have "main_on_p3 e (pre @ post) db = (Exits 1, db, [Console Error UriUndefined] @ [])"
    and "main_on_p3 e (pre @ s # post) db = (Exits 1, db, [Console Error UriUndefined] @ [])"
    by (simp_all add: main_on_p3_def io_bind_def console_def process_exit_def)
  then show ?thesis by blast
next
  case False
  show ?thesis
  proof (cases "mongoose_connect e (uri_string (mongoUri e))")
    case (Some err)
    from importDbfsData_on_not_connected(2) [OF this] False
    have "main_on_p3 e (pre @ post) db = main_on_p3 e (pre @ s # post) db"
      by (simp add: main_on_p3_def)
    moreover obtain r db' a where "main_on_p3 e (pre @ post) db = (r, db', a @ [])"
      by (cases "main_on_p3 e (pre @ post) db") auto
    ultimately show ?thesis by metis
  next
    case None
    let ?c = "[Console Log Connecting, MongoConnect (uri_string (mongoUri e)), Console Log Connected]"
    from folder_loop_p3_skips [of e s skip pre post db, OF assms] obtain r db' a b where
      plain: "folder_loop_p3 e (pre @ post) db = (r, db', a @ b)"
      and skipped: "folder_loop_p3 e (pre @ s # post) db = (r, db', a @ skip @ b) \<or>
        folder_loop_p3 e (pre @ s # post) db = (r, db', a @ b)"
      by blast
    obtain r' :: "unit outcome" and tail where tail: "\<And>tr. (case (r, db', tr) of
        (Returns u, db1, tr1) \<Rightarrow>
          (Exits 0, db1, ?c @ tr1 @ [Console Log AllDone, Console Log TotalElapsed])
      | (Throws err, db1, tr1) \<Rightarrow>
          (Exits 0, db1,
           ?c @ tr1 @ [Console Error (ErrorMsg err), Console Log ElapsedBeforeError])
      | (Exits c, db1, tr1) \<Rightarrow> (Exits c, db1, ?c @ tr1)) = (r', db', ?c @ tr @ tail)"
      by (cases r) auto
    from plain have "main_on_p3 e (pre @ post) db = (r', db', (?c @ a) @ (b @ tail))"
      using False tail [of "a @ b"]
      by (simp add: main_on_p3_def importDbfsData_on_p3_connected [OF None])
    moreover from skipped
    have "main_on_p3 e (pre @ s # post) db = (r', db', (?c @ a) @ skip @ (b @ tail)) \<or>
        main_on_p3 e (pre @ s # post) db = (r', db', (?c @ a) @ (b @ tail))"
      using False tail [of "a @ skip @ b"] tail [of "a @ b"]
      by (auto simp: main_on_p3_def importDbfsData_on_p3_connected [OF None])
    ultimately show ?thesis by blast
  qed
qed


lemma skips_observed:
  assumes "\<exists>r db' a b. without = (r, db', a @ b) \<and>
      (skipped = (r, db', a @ skip @ b) \<or> skipped = (r, db', a @ b))"
    and "run_summary skip = []"
  shows "outcome_of skipped = outcome_of without"
    and "db_of skipped = db_of without"
    and "\<exists>a b. effects_of without = a @ b \<and>
      (effects_of skipped = a @ skip @ b \<or> effects_of skipped = a @ b)"
    and "run_summary (effects_of skipped) = run_summary (effects_of without)"
proof -
  from assms(1) obtain r db' a b where
    plain: "without = (r, db', a @ b)"
    and skipped: "skipped = (r, db', a @ skip @ b) \<or> skipped = (r, db', a @ b)"
    by blast
  from plain skipped show "outcome_of skipped = outcome_of without"
    and "db_of skipped = db_of without"
    by (auto simp: outcome_of_def db_of_def)
  from plain skipped
  have "effects_of without = a @ b \<and>
      (effects_of skipped = a @ skip @ b \<or> effects_of skipped = a @ b)"
    by (auto simp: effects_of_def)
  then show "\<exists>a b. effects_of without = a @ b \<and>
      (effects_of skipped = a @ skip @ b \<or> effects_of skipped = a @ b)"
    by blast
  from plain skipped assms(2)
  show "run_summary (effects_of skipped) = run_summary (effects_of without)"
    by (auto simp: effects_of_def run_summary_def)
qed

text \<open>
  Claim C9, as the scripts have it. A folder that does not exist is looked at and
  reported, and the loop goes on: the run has the outcome, leaves the destination and
  prints the import summaries that the run without that folder in the list has, and its
  effects are those of that run with the look at the folder and the warning put in;
  the folder itself yields no summary line. In \<^verbatim>\<open>part_003\<close> this holds for every run;
  in \<^verbatim>\<open>dbfToMongo.js\<close>, which also logs the warning, it holds when the error log can be
  written. A run whose connection succeeded exits with code 0.
\<close>

theorem C9_missing_folder_is_skipped:
  assumes "\<not> fs_existsSync e (DBF_FOLDER @ [s])"
  shows "process_folder_p3 e s db = (Returns (), db, missing_folder_effects_p3 s) \<and>
    outcome_of (main_on_p3 e (pre @ s # post) db) = outcome_of (main_on_p3 e (pre @ post) db) \<and>
    db_of (main_on_p3 e (pre @ s # post) db) = db_of (main_on_p3 e (pre @ post) db) \<and>
    (\<exists>a b. effects_of (main_on_p3 e (pre @ post) db) = a @ b \<and>
       (effects_of (main_on_p3 e (pre @ s # post) db) = a @ missing_folder_effects_p3 s @ b \<or>
        effects_of (main_on_p3 e (pre @ s # post) db) = a @ b)) \<and>
    run_summary (effects_of (main_on_p3 e (pre @ s # post) db)) =
      run_summary (effects_of (main_on_p3 e (pre @ post) db)) \<and>
    (appendFileSync_error e = None \<longrightarrow>
       process_folder e s db = (Returns (), db, missing_folder_effects e s) \<and>
       outcome_of (main_on e (pre @ s # post) db) = outcome_of (main_on e (pre @ post) db) \<and>
       db_of (main_on e (pre @ s # post) db) = db_of (main_on e (pre @ post) db) \<and>
       (\<exists>a b. effects_of (main_on e (pre @ post) db) = a @ b \<and>
          (effects_of (main_on e (pre @ s # post) db) = a @ missing_folder_effects e s @ b \<or>
           effects_of (main_on e (pre @ s # post) db) = a @ b)) \<and>
       run_summary (effects_of (main_on e (pre @ s # post) db)) =
         run_summary (effects_of (main_on e (pre @ post) db))) \<and>
    (\<not> falsy (mongoUri e) \<and> mongoose_connect e (uri_string (mongoUri e)) = None \<longrightarrow>
       outcome_of (main_on e (pre @ s # post) db) = Exits 0 \<and>
       outcome_of (main_on_p3 e (pre @ s # post) db) = Exits 0)"
proof -
  have p3: "process_folder_p3 e s db = (Returns (), db, missing_folder_effects_p3 s)" for db
    using process_folder_missing(2) [OF assms] .
  have s3: "run_summary (missing_folder_effects_p3 s) = []"
    by (simp add: run_summary_def missing_folder_effects_p3_def)
  note obs3 = skips_observed [OF main_on_p3_skips [of e s "missing_folder_effects_p3 s" pre post db,
        OF p3] s3]
  have main: "process_folder e s db = (Returns (), db, missing_folder_effects e s) \<and>
       outcome_of (main_on e (pre @ s # post) db) = outcome_of (main_on e (pre @ post) db) \<and>
       db_of (main_on e (pre @ s # post) db) = db_of (main_on e (pre @ post) db) \<and>
       (\<exists>a b. effects_of (main_on e (pre @ post) db) = a @ b \<and>
          (effects_of (main_on e (pre @ s # post) db) = a @ missing_folder_effects e s @ b \<or>
           effects_of (main_on e (pre @ s # post) db) = a @ b)) \<and>
       run_summary (effects_of (main_on e (pre @ s # post) db)) =
         run_summary (effects_of (main_on e (pre @ post) db))"
    if w: "appendFileSync_error e = None"
  proof -
    have p: "process_folder e s db = (Returns (), db, missing_folder_effects e s)" for db
      using process_folder_missing(1) [OF assms, of db] w by simp
    have s: "run_summary (missing_folder_effects e s) = []"
      by (simp add: run_summary_def missing_folder_effects_def)
    note obs = skips_observed [OF main_on_skips [of e s "missing_folder_effects e s" pre post db,
          OF p] s]
    from p obs show ?thesis by blast
  qed
  have zero: "outcome_of (main_on e (pre @ s # post) db) = Exits 0 \<and>
       outcome_of (main_on_p3 e (pre @ s # post) db) = Exits 0"
    if "\<not> falsy (mongoUri e) \<and> mongoose_connect e (uri_string (mongoUri e)) = None"
    using that
    by (simp add: main_on_def main_on_p3_def outcome_of_def importDbfsData_on_exits_zero
        importDbfsData_on_p3_exits_zero)
  from p3 obs3 main zero show ?thesis by blast
qed

theorem C9_missing_folder_is_skipped_witness:
  "\<not> fs_existsSync demo_env (DBF_FOLDER @ [''ZZ'']) \<and>
   appendFileSync_error demo_env = None \<and>
   process_folder demo_env ''ZZ'' empty_db =
     (Returns (), empty_db,
      [FsExists [''_dbf'', ''ZZ''], Console Warn (FolderNotFound [''_dbf'', ''ZZ'']),
       LogLine 1000 (FolderNotFound [''_dbf'', ''ZZ''])]) \<and>
   outcome_of (main_on demo_env [''ZZ'', ''AVB''] empty_db) = Exits 0 \<and>
   db_of (main_on demo_env [''ZZ'', ''AVB''] empty_db) = db_of (main_on demo_env [''AVB''] empty_db) \<and>
   run_summary (effects_of (main_on demo_env [''ZZ'', ''AVB''] empty_db)) =
     run_summary (effects_of (main_on demo_env [''AVB''] empty_db)) \<and>
   outcome_of (main_on_p3 demo_env [''ZZ'', ''AVB''] empty_db) = Exits 0 \<and>
   db_of (main_on_p3 demo_env [''ZZ'', ''AVB''] empty_db) =
     db_of (main_on_p3 demo_env [''AVB''] empty_db)"
proof -
  have missing: "\<not> fs_existsSync demo_env (DBF_FOLDER @ [''ZZ''])"
    by (simp add: demo_env_def DBF_FOLDER_def)
  have w: "appendFileSync_error demo_env = None"
    and c: "\<not> falsy (mongoUri demo_env) \<and>
      mongoose_connect demo_env (uri_string (mongoUri demo_env)) = None"
    by (simp_all add: demo_env_def falsy_def mongoUri_def js_or_def)
  note inst = C9_missing_folder_is_skipped
      [OF missing, where pre = "[]" and post = "[''AVB'']" and db = empty_db,
       simplified append_Nil]
  have eff: "missing_folder_effects demo_env ''ZZ'' =
      [FsExists [''_dbf'', ''ZZ''], Console Warn (FolderNotFound [''_dbf'', ''ZZ'']),
       LogLine 1000 (FolderNotFound [''_dbf'', ''ZZ''])]"
    by (simp add: missing_folder_effects_def DBF_FOLDER_def demo_env_def)
  from inst w c have
    "process_folder demo_env ''ZZ'' empty_db =
       (Returns (), empty_db, missing_folder_effects demo_env ''ZZ'')"
    "outcome_of (main_on demo_env [''ZZ'', ''AVB''] empty_db) = Exits 0"
    "db_of (main_on demo_env [''ZZ'', ''AVB''] empty_db) = db_of (main_on demo_env [''AVB''] empty_db)"
    "run_summary (effects_of (main_on demo_env [''ZZ'', ''AVB''] empty_db)) =
       run_summary (effects_of (main_on demo_env [''AVB''] empty_db))"
    "outcome_of (main_on_p3 demo_env [''ZZ'', ''AVB''] empty_db) = Exits 0"
    "db_of (main_on_p3 demo_env [''ZZ'', ''AVB''] empty_db) =
       db_of (main_on_p3 demo_env [''AVB''] empty_db)"
    by blast+
  with missing w show ?thesis
    unfolding eff by blast
qed

text \<open>
  The claim as stated fails for \<^verbatim>\<open>dbfToMongo.js\<close> when the error log cannot be written:
  the folder that does not exist ends the loop, and the folder after it, which the run
  without the missing folder loads completely, is never visited.
\<close>

theorem C9_counterexample:
  "db_of (main_on readonly_full_env [''ZZ'', ''AVB''] empty_db) ''AVBArticle.js'' = [] \<and>
   run_summary (effects_of (main_on readonly_full_env [''ZZ'', ''AVB''] empty_db)) = [] \<and>
   db_of (main_on readonly_full_env [''AVB''] empty_db) ''AVBArticle.js'' =
     [[(''NART'', VString ''A1''), (''PRIX'', VNumber (Finite 0))], rec2] \<and>
   run_summary (effects_of (main_on readonly_full_env [''AVB''] empty_db)) =
     [Console Log (ImportDone Article 2 2), Console Log (ImportDone Classnum 2 2),
      Console Log (ImportDone Fournisseur 2 2), Console Log (ImportDone Client 2 2),
      Console Log (ImportDone Facture 2 2), Console Log (ImportDone FactureDetail 2 2),
      Console Log (ImportDone Tier 2 2)]"
  by (simp add: io_defs script_defs example_defs readonly_full_env_def plain_model_def
      run_summary_def sanitizeRecord_def sanitizeValue_def)

end
